theory Spec2Isabelle
  imports Complex_Main "HOL-Library.Word"
begin

section \<open>JavaScript strings\<close>

text \<open>
  A JavaScript string is a sequence of UTF-16 code units.  The literals of
  \<^verbatim>\<open>tracker.js\<close> that matter here are ASCII and are written through \<open>js\<close>;
  the em dash of \<^verbatim>\<open>norad || '\<dots>'\<close> is the single code unit \<open>0x2014\<close>.
\<close>

type_synonym jsstring = "16 word list"

definition js :: "string \<Rightarrow> jsstring" where
  "js cs = map of_char cs"

definition dash :: jsstring where
  "dash = [0x2014]"

text \<open>
  \<^verbatim>\<open>String.prototype.trim\<close> strips the code units that ECMAScript calls
  WhiteSpace or LineTerminator from both ends.
\<close>

definition isWhiteSpace :: "16 word \<Rightarrow> bool" where
  "isWhiteSpace c =
     (c = 0x0009 \<or> c = 0x000A \<or> c = 0x000B \<or> c = 0x000C \<or> c = 0x000D \<or> c = 0x0020
      \<or> c = 0x00A0 \<or> c = 0x1680 \<or> (0x2000 \<le> c \<and> c \<le> 0x200A)
      \<or> c = 0x2028 \<or> c = 0x2029 \<or> c = 0x202F \<or> c = 0x205F \<or> c = 0x3000 \<or> c = 0xFEFF)"

definition trim :: "jsstring \<Rightarrow> jsstring" where
  "trim s = rev (dropWhile isWhiteSpace (rev (dropWhile isWhiteSpace s)))"

text \<open>\<^verbatim>\<open>s.split('\n')\<close>: the pieces between line feeds; the empty string gives one empty piece.\<close>

fun split_nl :: "jsstring \<Rightarrow> jsstring list" where
  "split_nl [] = [] # []"
| "split_nl (c # cs) =
     (if c = 0x000A then [] # split_nl cs
      else (case split_nl cs of [] \<Rightarrow> [c] # [] | l # ls \<Rightarrow> (c # l) # ls))"

text \<open>\<^verbatim>\<open>.filter(Boolean)\<close> on an array of strings keeps the non-empty ones.\<close>

definition filter_Boolean :: "jsstring list \<Rightarrow> jsstring list" where
  "filter_Boolean ls = filter (\<lambda>l. l \<noteq> []) ls"

text \<open>\<^verbatim>\<open>a[i]\<close> on an array: \<^verbatim>\<open>undefined\<close> (here \<open>None\<close>) out of range.\<close>

definition index :: "'a list \<Rightarrow> nat \<Rightarrow> 'a option" where
  "index a i = (if i < length a then Some (a ! i) else None)"

text \<open>\<^verbatim>\<open>/^\d+$/.test(q)\<close>: one or more ASCII digits and nothing else.\<close>

definition isDigit :: "16 word \<Rightarrow> bool" where
  "isDigit c = (0x0030 \<le> c \<and> c \<le> 0x0039)"

definition all_digits :: "jsstring \<Rightarrow> bool" where
  "all_digits q = (q \<noteq> [] \<and> list_all isDigit q)"

text \<open>\<^verbatim>\<open>hay.includes(needle)\<close>: \<open>needle\<close> occurs in \<open>hay\<close> as a contiguous run.\<close>

fun startsWith :: "jsstring \<Rightarrow> jsstring \<Rightarrow> bool" where
  "startsWith hay [] = True"
| "startsWith [] (n # ns) = False"
| "startsWith (h # hs) (n # ns) = (h = n \<and> startsWith hs ns)"

fun includes_str :: "jsstring \<Rightarrow> jsstring \<Rightarrow> bool" where
  "includes_str [] needle = (needle = [])"
| "includes_str (h # hs) needle = (startsWith (h # hs) needle \<or> includes_str hs needle)"

section \<open>What the tracker calls from outside\<close>

text \<open>
  \<^verbatim>\<open>tracker.js\<close> calls the library satellite.js and the built-in
  \<^verbatim>\<open>toLowerCase\<close>; neither is part of the repository, so they are parameters of
  the model, with the interface the tracker relies on:
  \<^item> \<^verbatim>\<open>twoline2satrec(l1, l2)\<close> returns a record or throws (\<open>None\<close>); a line may be
    \<^verbatim>\<open>undefined\<close> (\<open>None\<close>);
  \<^item> \<^verbatim>\<open>propagate(satrec, date)\<close> returns an object whose \<^verbatim>\<open>position\<close> is
    \<^verbatim>\<open>false\<close> when the model fails (\<open>NoState\<close>) and which otherwise holds the
    inertial position and velocity;
  \<^item> \<^verbatim>\<open>gstime\<close>, \<^verbatim>\<open>eciToGeodetic\<close>, \<^verbatim>\<open>degreesLat\<close>, \<^verbatim>\<open>degreesLong\<close>
    return numbers.
  JavaScript numbers are modelled as real numbers (rounding is not modelled), counts
  and steps as integers, and the time value of a \<^verbatim>\<open>Date\<close> as an integer count of
  milliseconds (the limits of the range of \<^verbatim>\<open>Date\<close> are not modelled).
\<close>

datatype vec3 = Vec3 (x: real) (y: real) (z: real)

datatype pv = NoState | State (position: vec3) (velocity: vec3)

record geodetic =
  longitude :: real
  latitude :: real
  height :: real

record 'r library =
  twoline2satrec :: "jsstring option \<Rightarrow> jsstring option \<Rightarrow> 'r option"
  propagate :: "'r \<Rightarrow> int \<Rightarrow> pv"
  gstime :: "int \<Rightarrow> real"
  eciToGeodetic :: "vec3 \<Rightarrow> real \<Rightarrow> geodetic"
  degreesLat :: "real \<Rightarrow> real"
  degreesLong :: "real \<Rightarrow> real"
  toLowerCase :: "jsstring \<Rightarrow> jsstring"

text \<open>
  \<^verbatim>\<open>fetch\<close>: the promise is rejected (\<open>None\<close>) or yields a response with its
  \<^verbatim>\<open>ok\<close> flag and its body, whose reading may fail too (\<open>None\<close>).
\<close>

datatype response = Response (ok: bool) (body: "jsstring option")

section \<open>The state of the page\<close>

record tleObj =
  tle_name :: jsstring
  line1 :: "jsstring option"
  line2 :: "jsstring option"

record meta =
  meta_name :: jsstring
  meta_id :: jsstring

text \<open>The object handed to \<^verbatim>\<open>showTelemetry\<close>.\<close>

record telemetry =
  obj_name :: jsstring
  obj_id :: jsstring
  lat :: real
  lng :: real
  alt :: real
  vel :: real
  ts :: int

text \<open>
  The telemetry panel: its \<^verbatim>\<open>style.display\<close> and what its fields show.  The
  fields hold the values themselves; the text formatting (\<^verbatim>\<open>toFixed\<close>,
  \<^verbatim>\<open>toUTCString\<close>) is not modelled.
\<close>

datatype display = DisplayInitial | DisplayBlock | DisplayNone

record panel =
  panel_display :: display
  panel_fields :: "telemetry option"

record marker =
  latlng :: "real \<times> real"
  popup :: jsstring

text \<open>What \<^verbatim>\<open>alert\<close>, \<^verbatim>\<open>console.warn\<close> and \<^verbatim>\<open>console.error\<close> have been given.\<close>

datatype message = Alert string | ConsoleWarn string | ConsoleError string

text \<open>An interval timer of the browser: the closure of its callback and its period.\<close>

record 'r timer =
  cb_satrec :: 'r
  cb_meta :: meta
  period_ms :: nat

text \<open>
  The module variables \<^verbatim>\<open>satMarker\<close>, \<^verbatim>\<open>orbitLayer\<close>, \<^verbatim>\<open>updateHandle\<close> and
  \<^verbatim>\<open>map\<close>, with the parts of the browser they point into: the live interval
  timers by handle, the marker objects by identity, the markers that are on the map,
  the map's view, the panel and the messages put out.  \<^verbatim>\<open>undefined\<close> and
  \<^verbatim>\<open>null\<close> are both \<open>None\<close>: the code only tests these variables for truth.
\<close>

record 'r tracker =
  satMarker :: "nat option"
  orbitLayer :: "(real \<times> real) list list"
  updateHandle :: "nat option"
  timers :: "nat \<rightharpoonup> 'r timer"
  nextTimer :: nat
  markerObjs :: "nat \<rightharpoonup> marker"
  nextMarker :: nat
  mapMarkers :: "nat list"
  mapCenter :: "real \<times> real"
  mapZoom :: real
  telemetryPanel :: panel
  outputs :: "message list"

section \<open>Browser primitives\<close>

text \<open>
  \<^verbatim>\<open>setInterval\<close> returns a handle greater than zero that no earlier timer had
  and makes the timer live; \<^verbatim>\<open>clearInterval\<close> removes the timer with that handle,
  if there is one.
\<close>

definition setInterval :: "'r timer \<Rightarrow> 'r tracker \<Rightarrow> nat \<times> 'r tracker" where
  "setInterval t s =
     (nextTimer s, s\<lparr>timers := (timers s)(nextTimer s \<mapsto> t), nextTimer := Suc (nextTimer s)\<rparr>)"

definition clearInterval :: "nat \<Rightarrow> 'r tracker \<Rightarrow> 'r tracker" where
  "clearInterval h s = s\<lparr>timers := (timers s)(h := None)\<rparr>"

definition emit :: "message \<Rightarrow> 'r tracker \<Rightarrow> 'r tracker" where
  "emit m s = s\<lparr>outputs := outputs s @ [m]\<rparr>"

text \<open>\<^verbatim>\<open>if(updateHandle)\<close>: a number is true unless it is zero.\<close>

definition truthy_handle :: "nat option \<Rightarrow> bool" where
  "truthy_handle h = (case h of None \<Rightarrow> False | Some n \<Rightarrow> n \<noteq> 0)"

section \<open>tracker.js\<close>

definition sampleISS :: tleObj where
  "sampleISS =
     \<lparr>tle_name = js ''ISS (ZARYA) - sample fallback'',
      line1 = Some (js ''1 25544U 98067A   25336.20547222  .00021320  00000-0  43887-3 0  9991''),
      line2 = Some (js ''2 25544  51.6413  11.9812 0007892 304.9859  54.9765 15.50089713338645'')\<rparr>"

text \<open>The lines of a fetched text: as in \<^verbatim>\<open>txt.trim().split('\n').map(s=>s.trim()).filter(Boolean)\<close>.\<close>

definition tle_lines :: "jsstring \<Rightarrow> jsstring list" where
  "tle_lines txt = filter_Boolean (map trim (split_nl (trim txt)))"

text \<open>
  \<^verbatim>\<open>CelestrakTLEByNORAD\<close>, given what the fetch produced.  Every throw inside the
  \<^verbatim>\<open>try\<close> (rejected fetch, response not ok, unreadable body, fewer than two
  lines) ends in the \<^verbatim>\<open>catch\<close>: a console warning and \<^verbatim>\<open>null\<close>.
\<close>

definition CelestrakTLEByNORAD ::
  "jsstring \<Rightarrow> response option \<Rightarrow> 'r tracker \<Rightarrow> tleObj option \<times> 'r tracker" where
  "CelestrakTLEByNORAD norad res s =
     (let caught = (None, emit (ConsoleWarn ''Celestrak fetch failed'') s) in
      case res of
        None \<Rightarrow> caught
      | Some r \<Rightarrow>
          if \<not> ok r then caught
          else (case body r of
                  None \<Rightarrow> caught
                | Some txt \<Rightarrow>
                    let lines = tle_lines txt in
                    if length lines \<ge> 2 then
                      if length lines = 2 then
                        (Some \<lparr>tle_name = js ''NORAD '' @ norad,
                               line1 = index lines 0, line2 = index lines 1\<rparr>, s)
                      else
                        (Some \<lparr>tle_name = lines ! 0,
                               line1 = index lines 1, line2 = index lines 2\<rparr>, s)
                    else caught))"

definition initMap :: "'r tracker" where
  "initMap =
     \<lparr>satMarker = None, orbitLayer = [], updateHandle = None,
      timers = Map.empty, nextTimer = 1,
      markerObjs = Map.empty, nextMarker = 0, mapMarkers = [],
      mapCenter = (0, 0), mapZoom = 2,
      telemetryPanel = \<lparr>panel_display = DisplayInitial, panel_fields = None\<rparr>,
      outputs = []\<rparr>"

text \<open>\<^verbatim>\<open>obj.name || '\<dots>'\<close>: the empty string is false.\<close>

definition or_dash :: "jsstring \<Rightarrow> jsstring" where
  "or_dash s = (if s = [] then dash else s)"

definition showTelemetry :: "telemetry \<Rightarrow> 'r tracker \<Rightarrow> 'r tracker" where
  "showTelemetry obj s =
     s\<lparr>telemetryPanel :=
         \<lparr>panel_display = DisplayBlock,
          panel_fields = Some (obj\<lparr>obj_name := or_dash (obj_name obj),
                                   obj_id := or_dash (obj_id obj)\<rparr>)\<rparr>\<rparr>"

definition clearOrbit :: "'r tracker \<Rightarrow> 'r tracker" where
  "clearOrbit s =
     (let s1 = s\<lparr>orbitLayer := []\<rparr> in
      case satMarker s1 of
        None \<Rightarrow> s1
      | Some m \<Rightarrow> s1\<lparr>mapMarkers := removeAll m (mapMarkers s1), satMarker := None\<rparr>)"

text \<open>
  The loop of \<^verbatim>\<open>plotOrbit\<close>, from \<open>i\<close> up to but not including \<open>hi\<close>: a point is
  pushed only where \<^verbatim>\<open>positionAndVelocity.position\<close> is true.
\<close>

definition when_of :: "int \<Rightarrow> int \<Rightarrow> int \<Rightarrow> int" where
  "when_of now secondsStep i = now + i * secondsStep * 1000"

definition path_point :: "'r library \<Rightarrow> vec3 \<Rightarrow> int \<Rightarrow> real \<times> real" where
  "path_point lib pos when =
     (let gmst = gstime lib when;
          geo = eciToGeodetic lib pos gmst;
          lat = degreesLat lib (latitude geo);
          lon = degreesLong lib (longitude geo)
      in (lat, lon))"

function plotOrbit_loop ::
  "'r library \<Rightarrow> 'r \<Rightarrow> int \<Rightarrow> int \<Rightarrow> int \<Rightarrow> int \<Rightarrow> (real \<times> real) list \<Rightarrow> (real \<times> real) list" where
  "plotOrbit_loop lib satrec now secondsStep hi i path =
     (if i < hi then
        (let when = when_of now secondsStep i;
             positionAndVelocity = propagate lib satrec when
         in case positionAndVelocity of
              NoState \<Rightarrow> plotOrbit_loop lib satrec now secondsStep hi (i + 1) path
            | State pos v \<Rightarrow>
                plotOrbit_loop lib satrec now secondsStep hi (i + 1)
                  (path @ [path_point lib pos when]))
      else path)"
  by pat_completeness auto
termination
  by (relation "measure (\<lambda>(lib, satrec, now, secondsStep, hi, i, path). nat (hi - i))") auto

declare plotOrbit_loop.simps [simp del]

text \<open>
  \<^verbatim>\<open>function plotOrbit(satrec, steps=240, secondsStep=60)\<close>: an argument left out
  (\<open>None\<close>) takes its default.
\<close>

definition plotOrbit_path :: "'r library \<Rightarrow> 'r \<Rightarrow> int option \<Rightarrow> int option \<Rightarrow> int \<Rightarrow> (real \<times> real) list" where
  "plotOrbit_path lib satrec steps_arg secondsStep_arg now =
     (let steps = (case steps_arg of None \<Rightarrow> 240 | Some n \<Rightarrow> n);
          secondsStep = (case secondsStep_arg of None \<Rightarrow> 60 | Some n \<Rightarrow> n)
      in plotOrbit_loop lib satrec now secondsStep \<lceil>real_of_int steps / 2\<rceil>
           (- \<lfloor>real_of_int steps / 2\<rfloor>) [])"

definition plotOrbit :: "'r library \<Rightarrow> 'r \<Rightarrow> int option \<Rightarrow> int option \<Rightarrow> int \<Rightarrow> 'r tracker \<Rightarrow> 'r tracker" where
  "plotOrbit lib satrec steps_arg secondsStep_arg now s =
     (let s1 = s\<lparr>orbitLayer := []\<rparr>;
          path = plotOrbit_path lib satrec steps_arg secondsStep_arg now
      in s1\<lparr>orbitLayer := orbitLayer s1 @ [path]\<rparr>)"

text \<open>The longitude of the telemetry: \<^verbatim>\<open>if(lon > 180) lon -= 360;\<close>\<close>

definition normalize_lon :: "real \<Rightarrow> real" where
  "normalize_lon lon = (if lon > 180 then lon - 360 else lon)"

text \<open>The callback that \<^verbatim>\<open>startUpdating\<close> hands to \<^verbatim>\<open>setInterval\<close>.\<close>

definition tick :: "'r library \<Rightarrow> 'r \<Rightarrow> meta \<Rightarrow> int \<Rightarrow> 'r tracker \<Rightarrow> 'r tracker" where
  "tick lib satrec m now s =
     (case propagate lib satrec now of
        NoState \<Rightarrow> s
      | State pos v \<Rightarrow>
          (let gmst = gstime lib now;
               geo = eciToGeodetic lib pos gmst;
               lat = degreesLat lib (latitude geo);
               lon = normalize_lon (degreesLong lib (longitude geo));
               altitude = height geo;
               vel = sqrt (x v * x v + y v * y v + z v * z v);
               obj = \<lparr>obj_name = meta_name m, obj_id = meta_id m,
                      lat = lat, lng = lon, alt = altitude, vel = vel, ts = now\<rparr>;
               s1 = showTelemetry obj s;
               s2 = (case satMarker s1 of
                       None \<Rightarrow>
                         s1\<lparr>markerObjs := (markerObjs s1)(nextMarker s1 \<mapsto>
                                \<lparr>latlng = (lat, lon),
                                 popup = meta_name m @ js '' ('' @ or_dash (meta_id m) @ js '')''\<rparr>),
                            mapMarkers := mapMarkers s1 @ [nextMarker s1],
                            satMarker := Some (nextMarker s1),
                            nextMarker := Suc (nextMarker s1)\<rparr>
                     | Some k \<Rightarrow>
                         s1\<lparr>markerObjs := (markerObjs s1)(k :=
                                map_option (\<lambda>mk. mk\<lparr>latlng := (lat, lon)\<rparr>) (markerObjs s1 k))\<rparr>)
           in if mapZoom s2 < 5 then s2\<lparr>mapCenter := (lat, lon), mapZoom := 2\<rparr> else s2))"

definition startUpdating :: "'r library \<Rightarrow> 'r \<Rightarrow> meta \<Rightarrow> 'r tracker \<Rightarrow> 'r tracker" where
  "startUpdating lib satrec m s =
     (let s1 = (if truthy_handle (updateHandle s) then clearInterval (the (updateHandle s)) s else s);
          (h, s2) = setInterval \<lparr>cb_satrec = satrec, cb_meta = m, period_ms = 1000\<rparr> s1
      in s2\<lparr>updateHandle := Some h\<rparr>)"

text \<open>
  The search of the stations list by name, \<^verbatim>\<open>for(let i=0;i<lines.length;i+=3)\<close>:
  the first name line that contains the query, with the two lines after it (which may
  be missing).
\<close>

function search_stations :: "'r library \<Rightarrow> jsstring \<Rightarrow> jsstring list \<Rightarrow> nat \<Rightarrow> tleObj option" where
  "search_stations lib query lines i =
     (if i < length lines then
        (let name = lines ! i in
         if name \<noteq> [] \<and> includes_str (toLowerCase lib name) (toLowerCase lib query)
         then Some \<lparr>tle_name = name, line1 = index lines (i + 1), line2 = index lines (i + 2)\<rparr>
         else search_stations lib query lines (i + 3))
      else None)"
  by pat_completeness auto
termination
  by (relation "measure (\<lambda>(lib, query, lines, i). length lines - i)") auto

declare search_stations.simps [simp del]

definition name_search ::
  "'r library \<Rightarrow> jsstring \<Rightarrow> response option \<Rightarrow> 'r tracker \<Rightarrow> tleObj option \<times> 'r tracker" where
  "name_search lib query res s =
     (let caught = (None, emit (ConsoleWarn ''name search failed'') s) in
      case res of
        None \<Rightarrow> caught
      | Some r \<Rightarrow>
          (case body r of
             None \<Rightarrow> caught
           | Some txt \<Rightarrow>
               (search_stations lib query (filter_Boolean (map trim (split_nl txt))) 0, s)))"

text \<open>
  The body of the \<^verbatim>\<open>try\<close> of the track button, once the element set is chosen:
  the record is built first; if that throws, only the \<^verbatim>\<open>catch\<close> runs.
\<close>

definition start_session :: "'r library \<Rightarrow> tleObj \<Rightarrow> jsstring option \<Rightarrow> int \<Rightarrow> 'r tracker \<Rightarrow> 'r tracker" where
  "start_session lib tle norad now s =
     (case twoline2satrec lib (line1 tle) (line2 tle) of
        None \<Rightarrow>
          emit (ConsoleError ''err'')
            (emit (Alert ''Failed to parse TLE. Paste a valid 2-line element or try another ID.'') s)
      | Some satrec \<Rightarrow>
          startUpdating lib satrec
            \<lparr>meta_name = tle_name tle, meta_id = (case norad of None \<Rightarrow> dash | Some n \<Rightarrow> n)\<rparr>
            (plotOrbit lib satrec (Some 360) (Some 60) now (clearOrbit s)))"

text \<open>
  The click handler of the track button, in its two parts.  \<open>input\<close> is the value of
  the text field, \<open>res\<close> what the one fetch of this click produces, \<open>now\<close> the clock
  when the orbit is plotted.  The first part, up to \<^verbatim>\<open>tleObj = sampleISS\<close>, chooses
  the element set: it only reads the field and writes messages.  The second part is the
  \<^verbatim>\<open>try\<close>, which runs in one piece after the last \<^verbatim>\<open>await\<close>.
\<close>

definition resolve_tle ::
  "'r library \<Rightarrow> jsstring \<Rightarrow> response option \<Rightarrow> 'r tracker \<Rightarrow> tleObj \<times> jsstring option \<times> 'r tracker" where
  "resolve_tle lib input res s =
     (let query = trim input;
          s1 = (if query = []
                then emit (Alert ''Enter NORAD ID or name (e.g., 25544 or ISS). Using sample ISS TLE.'') s
                else s);
          norad = (if query \<noteq> [] \<and> all_digits query then Some query else None);
          (found, s2) = (case norad of
                           Some n \<Rightarrow> CelestrakTLEByNORAD n res s1
                         | None \<Rightarrow> if query \<noteq> [] then name_search lib query res s1 else (None, s1));
          tle = (case found of None \<Rightarrow> sampleISS | Some t \<Rightarrow> t)
      in (tle, norad, s2))"

definition trackClick :: "'r library \<Rightarrow> jsstring \<Rightarrow> response option \<Rightarrow> int \<Rightarrow> 'r tracker \<Rightarrow> 'r tracker" where
  "trackClick lib input res now s =
     (let (tle, norad, s2) = resolve_tle lib input res s
      in start_session lib tle norad now s2)"

definition stopClick :: "'r tracker \<Rightarrow> 'r tracker" where
  "stopClick s =
     (let s1 = (if truthy_handle (updateHandle s) then clearInterval (the (updateHandle s)) s else s);
          s2 = s1\<lparr>updateHandle := None\<rparr>;
          s3 = clearOrbit s2
      in s3\<lparr>telemetryPanel := (telemetryPanel s3)\<lparr>panel_display := DisplayNone\<rparr>\<rparr>)"

section \<open>The page over time\<close>

text \<open>
  What can happen to the page: a click on either button, the browser running the
  callback of the timer with some handle (which it does only while that timer is live),
  and the user zooming or panning the map.
\<close>

datatype event =
    Track jsstring "response option" int
  | Stop
  | Fire nat int
  | View "real \<times> real" real

definition fire :: "'r library \<Rightarrow> nat \<Rightarrow> int \<Rightarrow> 'r tracker \<Rightarrow> 'r tracker" where
  "fire lib h now s =
     (case timers s h of
        None \<Rightarrow> s
      | Some t \<Rightarrow> tick lib (cb_satrec t) (cb_meta t) now s)"

fun step :: "'r library \<Rightarrow> 'r tracker \<Rightarrow> event \<Rightarrow> 'r tracker" where
  "step lib s (Track input res now) = trackClick lib input res now s"
| "step lib s Stop = stopClick s"
| "step lib s (Fire h now) = fire lib h now s"
| "step lib s (View c zm) = s\<lparr>mapCenter := c, mapZoom := zm\<rparr>"

definition run :: "'r library \<Rightarrow> event list \<Rightarrow> 'r tracker \<Rightarrow> 'r tracker" where
  "run lib es s = foldl (step lib) s es"

section \<open>Notions used to state the properties\<close>

text \<open>
  The epochs that \<^verbatim>\<open>plotOrbit\<close> visits, written down as a list: the indices
  \<open>-\<lfloor>steps/2\<rfloor>, \<dots>, \<lceil>steps/2\<rceil> - 1\<close> and the instant each one stands for.  The
  loop is compared with this list below.
\<close>

definition sample_indices :: "int \<Rightarrow> int list" where
  "sample_indices steps = [- \<lfloor>real_of_int steps / 2\<rfloor> .. \<lceil>real_of_int steps / 2\<rceil> - 1]"

definition sample_epochs :: "int \<Rightarrow> int \<Rightarrow> int \<Rightarrow> int list" where
  "sample_epochs steps secondsStep now = map (when_of now secondsStep) (sample_indices steps)"

text \<open>The epochs at which propagation gives a position, and the point plotted for one.\<close>

definition kept_epochs :: "'r library \<Rightarrow> 'r \<Rightarrow> int list \<Rightarrow> int list" where
  "kept_epochs lib satrec ws = filter (\<lambda>w. propagate lib satrec w \<noteq> NoState) ws"

definition point_at :: "'r library \<Rightarrow> 'r \<Rightarrow> int \<Rightarrow> real \<times> real" where
  "point_at lib satrec w = path_point lib (position (propagate lib satrec w)) w"

text \<open>
  The variable \<^verbatim>\<open>updateHandle\<close> and the browser's timers agree: the live timers
  are exactly the one the variable names, if it names one.
\<close>

definition timer_inv :: "'r tracker \<Rightarrow> bool" where
  "timer_inv s =
     (0 < nextTimer s \<and>
      (case updateHandle s of
         None \<Rightarrow> timers s = Map.empty
       | Some h \<Rightarrow> 0 < h \<and> h < nextTimer s \<and> dom (timers s) = {h}))"

text \<open>The markers on the map are exactly the one \<^verbatim>\<open>satMarker\<close> refers to.\<close>

definition marker_inv :: "'r tracker \<Rightarrow> bool" where
  "marker_inv s = (mapMarkers s = (case satMarker s of None \<Rightarrow> [] | Some k \<Rightarrow> [k]))"

text \<open>A handle that has been given out and whose timer is no longer live.\<close>

definition dead :: "nat \<Rightarrow> 'r tracker \<Rightarrow> bool" where
  "dead h s = (h < nextTimer s \<and> timers s h = None)"

text \<open>
  A stand-in for the library, to instantiate the theorems at concrete inputs: building a
  record throws exactly when a line is \<^verbatim>\<open>undefined\<close>, and propagation fails
  exactly before time 0.
\<close>

definition demo_lib :: "(jsstring \<times> jsstring) library" where
  "demo_lib =
     \<lparr>twoline2satrec = (\<lambda>l1 l2. case l1 of None \<Rightarrow> None
                             | Some a \<Rightarrow> (case l2 of None \<Rightarrow> None | Some b \<Rightarrow> Some (a, b))),
      propagate = (\<lambda>r t. if t < 0 then NoState else State (Vec3 7000 0 0) (Vec3 0 1 0)),
      gstime = (\<lambda>t. 0),
      eciToGeodetic = (\<lambda>p g. \<lparr>longitude = 0, latitude = 0, height = 622\<rparr>),
      degreesLat = (\<lambda>r. r * 180 / pi),
      degreesLong = (\<lambda>r. r * 180 / pi),
      toLowerCase = (\<lambda>t. t)\<rparr>"

definition demo_satrec :: "jsstring \<times> jsstring" where
  "demo_satrec = (the (line1 sampleISS), the (line2 sampleISS))"

text \<open>The page after one click on the track button whose fetch was rejected.\<close>

definition demo_running :: "(jsstring \<times> jsstring) tracker" where
  "demo_running = run demo_lib [Track (js ''25544'') None 10800000] initMap"

section \<open>How each operation changes the state\<close>

lemma emit_frame:
  "timers (emit m s) = timers s" "updateHandle (emit m s) = updateHandle s"
  "nextTimer (emit m s) = nextTimer s" "satMarker (emit m s) = satMarker s"
  "mapMarkers (emit m s) = mapMarkers s" "orbitLayer (emit m s) = orbitLayer s"
  "telemetryPanel (emit m s) = telemetryPanel s" "markerObjs (emit m s) = markerObjs s"
  "outputs (emit m s) = outputs s @ [m]"
  by (simp_all add: emit_def)

lemma clearOrbit_frame:
  "timers (clearOrbit s) = timers s" "updateHandle (clearOrbit s) = updateHandle s"
  "nextTimer (clearOrbit s) = nextTimer s" "outputs (clearOrbit s) = outputs s"
  "telemetryPanel (clearOrbit s) = telemetryPanel s" "markerObjs (clearOrbit s) = markerObjs s"
  by (simp_all add: clearOrbit_def Let_def split: option.split)

lemma clearOrbit_clears:
  "orbitLayer (clearOrbit s) = []" "satMarker (clearOrbit s) = None"
  by (simp_all add: clearOrbit_def Let_def split: option.split)

lemma clearOrbit_mapMarkers:
  "marker_inv s \<Longrightarrow> mapMarkers (clearOrbit s) = []"
  by (simp add: clearOrbit_def marker_inv_def Let_def split: option.split)

lemma plotOrbit_frame:
  "timers (plotOrbit lib r a b now s) = timers s"
  "updateHandle (plotOrbit lib r a b now s) = updateHandle s"
  "nextTimer (plotOrbit lib r a b now s) = nextTimer s"
  "outputs (plotOrbit lib r a b now s) = outputs s"
  "telemetryPanel (plotOrbit lib r a b now s) = telemetryPanel s"
  "markerObjs (plotOrbit lib r a b now s) = markerObjs s"
  "satMarker (plotOrbit lib r a b now s) = satMarker s"
  "mapMarkers (plotOrbit lib r a b now s) = mapMarkers s"
  "orbitLayer (plotOrbit lib r a b now s) = [plotOrbit_path lib r a b now]"
  by (simp_all add: plotOrbit_def Let_def)

lemma startUpdating_frame:
  "outputs (startUpdating lib r m s) = outputs s"
  "telemetryPanel (startUpdating lib r m s) = telemetryPanel s"
  "markerObjs (startUpdating lib r m s) = markerObjs s"
  "satMarker (startUpdating lib r m s) = satMarker s"
  "mapMarkers (startUpdating lib r m s) = mapMarkers s"
  "orbitLayer (startUpdating lib r m s) = orbitLayer s"
  by (simp_all add: startUpdating_def setInterval_def clearInterval_def Let_def)

lemma startUpdating_timers:
  "updateHandle (startUpdating lib r m s) = Some (nextTimer s)"
  "nextTimer (startUpdating lib r m s) = Suc (nextTimer s)"
  "timers (startUpdating lib r m s) =
     ((if truthy_handle (updateHandle s) then (timers s)(the (updateHandle s) := None) else timers s))
       (nextTimer s \<mapsto> \<lparr>cb_satrec = r, cb_meta = m, period_ms = 1000\<rparr>)"
  by (simp_all add: startUpdating_def setInterval_def clearInterval_def Let_def)

lemma tick_frame:
  "timers (tick lib r m now s) = timers s"
  "updateHandle (tick lib r m now s) = updateHandle s"
  "nextTimer (tick lib r m now s) = nextTimer s"
  "outputs (tick lib r m now s) = outputs s"
  "orbitLayer (tick lib r m now s) = orbitLayer s"
  by (simp_all add: tick_def showTelemetry_def Let_def split: pv.split option.split)

lemma tick_marker_inv: "marker_inv s \<Longrightarrow> marker_inv (tick lib r m now s)"
  by (simp add: tick_def showTelemetry_def marker_inv_def Let_def split: pv.split option.split)

lemma Celestrak_snd:
  "snd (CelestrakTLEByNORAD n res s) = s \<or>
   snd (CelestrakTLEByNORAD n res s) = emit (ConsoleWarn ''Celestrak fetch failed'') s"
  by (simp add: CelestrakTLEByNORAD_def Let_def split: option.split)

lemma name_search_snd:
  "snd (name_search lib q res s) = s \<or>
   snd (name_search lib q res s) = emit (ConsoleWarn ''name search failed'') s"
  by (simp add: name_search_def Let_def split: option.split)

lemma resolve_tle_outputs:
  "\<exists>ms. snd (snd (resolve_tle lib input res s)) = s\<lparr>outputs := outputs s @ ms\<rparr>"
proof -
  have e: "\<And>m t. emit m t = t\<lparr>outputs := outputs t @ [m]\<rparr>" by (simp add: emit_def)
  have n: "\<And>t. t = t\<lparr>outputs := outputs t @ []\<rparr>" by simp
  let ?q = "trim input"
  let ?s1 = "if ?q = [] then emit (Alert ''Enter NORAD ID or name (e.g., 25544 or ISS). Using sample ISS TLE.'') s else s"
  have s1: "\<exists>ms. ?s1 = s\<lparr>outputs := outputs s @ ms\<rparr>"
    by (metis e n)
  then obtain ms1 where ms1: "?s1 = s\<lparr>outputs := outputs s @ ms1\<rparr>" ..
  let ?norad = "if ?q \<noteq> [] \<and> all_digits ?q then Some ?q else None"
  let ?r = "case ?norad of Some n \<Rightarrow> CelestrakTLEByNORAD n res ?s1
            | None \<Rightarrow> if ?q \<noteq> [] then name_search lib ?q res ?s1 else (None, ?s1)"
  have "snd ?r = ?s1 \<or> (\<exists>m. snd ?r = emit m ?s1)"
    using Celestrak_snd [of ?q res ?s1] name_search_snd [of lib ?q res ?s1]
    by (auto split: option.split)
  then have "\<exists>ms. snd ?r = s\<lparr>outputs := outputs s @ ms\<rparr>"
  proof
    assume "snd ?r = ?s1" then show ?thesis using ms1 by metis
  next
    assume "\<exists>m. snd ?r = emit m ?s1"
    then obtain m where "snd ?r = emit m ?s1" ..
    then have "snd ?r = s\<lparr>outputs := outputs s @ (ms1 @ [m])\<rparr>"
      using ms1 by (simp add: emit_def)
    then show ?thesis by blast
  qed
  moreover have "snd (snd (resolve_tle lib input res s)) = snd ?r"
    by (simp add: resolve_tle_def Let_def split_beta)
  ultimately show ?thesis by simp
qed

lemma trackClick_shape:
  "\<exists>tle norad ms. trackClick lib input res now s =
      start_session lib tle norad now (s\<lparr>outputs := outputs s @ ms\<rparr>)"
proof -
  obtain ms where "snd (snd (resolve_tle lib input res s)) = s\<lparr>outputs := outputs s @ ms\<rparr>"
    using resolve_tle_outputs by blast
  moreover have "trackClick lib input res now s =
      start_session lib (fst (resolve_tle lib input res s))
        (fst (snd (resolve_tle lib input res s))) now (snd (snd (resolve_tle lib input res s)))"
    by (simp add: trackClick_def split_beta)
  ultimately show ?thesis by metis
qed

lemma outputs_update_inv:
  "timer_inv (s\<lparr>outputs := ms\<rparr>) = timer_inv s"
  "marker_inv (s\<lparr>outputs := ms\<rparr>) = marker_inv s"
  "dead h (s\<lparr>outputs := ms\<rparr>) = dead h s"
  by (simp_all add: timer_inv_def marker_inv_def dead_def split: option.split)

lemma emit_inv:
  "timer_inv (emit m s) = timer_inv s"
  "marker_inv (emit m s) = marker_inv s"
  "dead h (emit m s) = dead h s"
  by (simp_all add: emit_def outputs_update_inv)

lemma startUpdating_timer_inv:
  assumes "timer_inv s"
  shows "timer_inv (startUpdating lib r m s)"
proof (cases "updateHandle s")
  case None
  then show ?thesis using assms
    by (simp add: timer_inv_def startUpdating_timers truthy_handle_def)
next
  case (Some h)
  then have "0 < h" "h < nextTimer s" "dom (timers s) = {h}"
    using assms by (simp_all add: timer_inv_def)
  then show ?thesis using Some
    by (auto simp: timer_inv_def startUpdating_timers truthy_handle_def)
qed

lemma startUpdating_dead:
  "dead h s \<Longrightarrow> dead h (startUpdating lib r m s)"
  by (simp add: dead_def startUpdating_timers)

lemma startUpdating_kills:
  "timer_inv s \<Longrightarrow> updateHandle s = Some h \<Longrightarrow> dead h (startUpdating lib r m s)"
  by (simp add: dead_def timer_inv_def startUpdating_timers truthy_handle_def)

lemma clearOrbit_inv:
  "timer_inv (clearOrbit s) = timer_inv s"
  "dead h (clearOrbit s) = dead h s"
  "marker_inv s \<Longrightarrow> marker_inv (clearOrbit s)"
  by (simp_all add: timer_inv_def dead_def marker_inv_def clearOrbit_frame clearOrbit_clears
        clearOrbit_mapMarkers split: option.split)

lemma plotOrbit_inv:
  "timer_inv (plotOrbit lib r a b now s) = timer_inv s"
  "dead h (plotOrbit lib r a b now s) = dead h s"
  "marker_inv (plotOrbit lib r a b now s) = marker_inv s"
  by (simp_all add: timer_inv_def dead_def marker_inv_def plotOrbit_frame split: option.split)

lemma startUpdating_marker_inv:
  "marker_inv (startUpdating lib r m s) = marker_inv s"
  by (simp add: marker_inv_def startUpdating_frame split: option.split)

lemma start_session_inv:
  "timer_inv s \<Longrightarrow> timer_inv (start_session lib tle norad now s)"
  "marker_inv s \<Longrightarrow> marker_inv (start_session lib tle norad now s)"
  "dead h s \<Longrightarrow> dead h (start_session lib tle norad now s)"
  by (simp_all add: start_session_def emit_inv startUpdating_timer_inv startUpdating_dead
        startUpdating_marker_inv clearOrbit_inv plotOrbit_inv split: option.split)

lemma trackClick_inv:
  "timer_inv s \<Longrightarrow> timer_inv (trackClick lib input res now s)"
  "marker_inv s \<Longrightarrow> marker_inv (trackClick lib input res now s)"
  "dead h s \<Longrightarrow> dead h (trackClick lib input res now s)"
  using trackClick_shape [of lib input res now s]
  by (auto simp: start_session_inv outputs_update_inv)

lemma tick_inv:
  "timer_inv (tick lib r m now s) = timer_inv s"
  "dead h (tick lib r m now s) = dead h s"
  by (simp_all add: timer_inv_def dead_def tick_frame split: option.split)

lemma fire_inv:
  "timer_inv (fire lib k now s) = timer_inv s"
  "dead h (fire lib k now s) = dead h s"
  "marker_inv s \<Longrightarrow> marker_inv (fire lib k now s)"
  by (simp_all add: fire_def tick_inv tick_marker_inv split: option.split)

lemma map_del_single: "dom m = {h} \<Longrightarrow> m(h := None) = Map.empty"
proof -
  assume "dom m = {h}"
  then have "dom (m(h := None)) = {}" by simp
  then show ?thesis by (simp only: dom_eq_empty_conv)
qed

lemma stopClick_frame:
  "updateHandle (stopClick s) = None"
  "nextTimer (stopClick s) = nextTimer s"
  "orbitLayer (stopClick s) = []"
  "satMarker (stopClick s) = None"
  "panel_display (telemetryPanel (stopClick s)) = DisplayNone"
  "panel_fields (telemetryPanel (stopClick s)) = panel_fields (telemetryPanel s)"
  "outputs (stopClick s) = outputs s"
  "markerObjs (stopClick s) = markerObjs s"
  by (simp_all add: stopClick_def Let_def clearOrbit_frame clearOrbit_clears clearInterval_def)

lemma stopClick_timers:
  "timers (stopClick s) =
     (if truthy_handle (updateHandle s) then (timers s)(the (updateHandle s) := None) else timers s)"
  by (simp add: stopClick_def Let_def clearOrbit_frame clearInterval_def)

lemma stopClick_no_timers:
  assumes "timer_inv s"
  shows "timers (stopClick s) = Map.empty"
proof (cases "updateHandle s")
  case None
  then show ?thesis using assms
    by (simp add: stopClick_timers timer_inv_def truthy_handle_def)
next
  case (Some h)
  then have "0 < h" "dom (timers s) = {h}"
    using assms by (simp_all add: timer_inv_def)
  then show ?thesis using Some
    by (simp add: stopClick_timers truthy_handle_def map_del_single)
qed

lemma stopClick_mapMarkers:
  "marker_inv s \<Longrightarrow> mapMarkers (stopClick s) = []"
  by (simp add: stopClick_def Let_def clearOrbit_def marker_inv_def clearInterval_def
        split: option.split)

lemma stopClick_inv:
  "timer_inv s \<Longrightarrow> timer_inv (stopClick s)"
  "marker_inv s \<Longrightarrow> marker_inv (stopClick s)"
  "dead h s \<Longrightarrow> dead h (stopClick s)"
    apply (simp add: timer_inv_def stopClick_frame stopClick_no_timers)
   apply (simp add: marker_inv_def stopClick_frame stopClick_mapMarkers)
  apply (simp add: dead_def stopClick_frame stopClick_timers)
  done

lemma stopClick_kills:
  "timer_inv s \<Longrightarrow> updateHandle s = Some h \<Longrightarrow> dead h (stopClick s)"
  by (simp add: dead_def stopClick_frame stopClick_no_timers timer_inv_def)

lemma view_inv:
  "timer_inv (s\<lparr>mapCenter := c, mapZoom := zm\<rparr>) = timer_inv s"
  "marker_inv (s\<lparr>mapCenter := c, mapZoom := zm\<rparr>) = marker_inv s"
  "dead h (s\<lparr>mapCenter := c, mapZoom := zm\<rparr>) = dead h s"
  by (simp_all add: timer_inv_def marker_inv_def dead_def split: option.split)

lemma step_timer_inv: "timer_inv s \<Longrightarrow> timer_inv (step lib s e)"
  by (cases e) (simp_all add: trackClick_inv stopClick_inv fire_inv view_inv)

lemma step_marker_inv: "marker_inv s \<Longrightarrow> marker_inv (step lib s e)"
  by (cases e) (simp_all add: trackClick_inv stopClick_inv fire_inv view_inv)

lemma step_dead: "dead h s \<Longrightarrow> dead h (step lib s e)"
  by (cases e) (simp_all add: trackClick_inv stopClick_inv fire_inv view_inv)

lemma run_timer_inv: "timer_inv s \<Longrightarrow> timer_inv (run lib es s)"
  unfolding run_def by (induction es arbitrary: s) (simp_all add: step_timer_inv)

lemma run_marker_inv: "marker_inv s \<Longrightarrow> marker_inv (run lib es s)"
  unfolding run_def by (induction es arbitrary: s) (simp_all add: step_marker_inv)

lemma run_dead: "dead h s \<Longrightarrow> dead h (run lib es s)"
  unfolding run_def by (induction es arbitrary: s) (simp_all add: step_dead)

lemma initMap_inv: "timer_inv initMap" "marker_inv initMap"
  by (simp_all add: timer_inv_def marker_inv_def initMap_def)

lemma reachable_inv:
  "timer_inv (run lib es initMap)" "marker_inv (run lib es initMap)"
  by (simp_all add: run_timer_inv run_marker_inv initMap_inv)

lemma fire_dead: "dead h s \<Longrightarrow> fire lib h now s = s"
  by (simp add: fire_def dead_def)

lemma timer_inv_card: "timer_inv s \<Longrightarrow> card (dom (timers s)) \<le> 1"
  by (simp add: timer_inv_def split: option.splits)

section \<open>The loop of the path sampler\<close>

lemma plotOrbit_loop_eq:
  "plotOrbit_loop lib satrec now secondsStep hi i path =
     path @ map (point_at lib satrec)
              (kept_epochs lib satrec (map (when_of now secondsStep) [i..hi - 1]))"
proof (induction lib satrec now secondsStep hi i path rule: plotOrbit_loop.induct)
  case (1 lib satrec now secondsStep hi i path)
  show ?case
  proof (cases "i < hi")
    case False
    then show ?thesis
      by (simp add: plotOrbit_loop.simps [of lib satrec now secondsStep hi i path] kept_epochs_def)
  next
    case True
    then have u: "[i..hi - 1] = i # [i + 1..hi - 1]"
      by (simp add: upto_rec1)
    show ?thesis
    proof (cases "propagate lib satrec (when_of now secondsStep i)")
      case NoState
      then show ?thesis
        using True "1.IH"(1) [OF True refl refl NoState]
        by (simp add: plotOrbit_loop.simps [of lib satrec now secondsStep hi i path] u
              kept_epochs_def)
    next
      case (State pos v)
      then show ?thesis
        using True "1.IH"(2) [OF True refl refl State]
        by (simp add: plotOrbit_loop.simps [of lib satrec now secondsStep hi i path] u
              kept_epochs_def point_at_def)
    qed
  qed
qed

lemma half_floor: "\<lfloor>real_of_int n / 2\<rfloor> = n div 2"
  using floor_divide_of_int_eq [of n 2, where ?'a = real] by simp

lemma half_ceiling: "\<lceil>real_of_int n / 2\<rceil> = (n + 1) div 2"
proof -
  have "\<lceil>real_of_int n / 2\<rceil> = - \<lfloor>real_of_int (- n) / 2\<rfloor>"
    by (simp add: ceiling_def)
  also have "\<dots> = - ((- n) div 2)"
    by (simp only: half_floor)
  also have "\<dots> = (n + 1) div 2" by presburger
  finally show ?thesis .
qed

lemma plotOrbit_path_eq:
  "plotOrbit_path lib satrec (Some steps) (Some secondsStep) now =
     map (point_at lib satrec) (kept_epochs lib satrec (sample_epochs steps secondsStep now))"
  by (simp add: plotOrbit_path_def plotOrbit_loop_eq sample_epochs_def sample_indices_def)

lemma plotOrbit_path_defaults:
  "plotOrbit_path lib satrec None b now = plotOrbit_path lib satrec (Some 240) b now"
  "plotOrbit_path lib satrec a None now = plotOrbit_path lib satrec a (Some 60) now"
  by (simp_all add: plotOrbit_path_def)

lemma sample_indices_eq: "sample_indices n = [- (n div 2) .. (n + 1) div 2 - 1]"
  by (simp only: sample_indices_def half_floor half_ceiling)

lemma length_sample_indices: "length (sample_indices (int N)) = N"
proof -
  have "(int N + 1) div 2 + int N div 2 = int N" by presburger
  then have "nat ((int N + 1) div 2 - 1 - - (int N div 2) + 1) = N" by simp
  then show ?thesis
    by (simp only: sample_indices_eq length_upto)
qed

lemma nth_sample_indices:
  assumes k: "k < N"
  shows "sample_indices (int N) ! k = int k - int (N div 2)"
proof -
  have "(int N + 1) div 2 + int N div 2 = int N" by presburger
  then have "- (int N div 2) + int k \<le> (int N + 1) div 2 - 1"
    using k by linarith
  then have "[- (int N div 2) .. (int N + 1) div 2 - 1] ! k = - (int N div 2) + int k"
    by (rule nth_upto)
  moreover have "int (N div 2) = int N div 2" by (simp add: zdiv_int)
  ultimately show ?thesis
    by (simp only: sample_indices_eq)
qed

lemma length_sample_epochs: "length (sample_epochs (int N) st now) = N"
  by (simp add: sample_epochs_def length_sample_indices)

lemma nth_sample_epochs:
  "k < N \<Longrightarrow> sample_epochs (int N) st now ! k = now + (int k - int (N div 2)) * st * 1000"
  by (simp add: sample_epochs_def length_sample_indices nth_sample_indices when_of_def)

lemma sorted_sample_indices: "sorted_wrt (<) (sample_indices steps)"
  by (simp only: sample_indices_eq sorted_wrt_upto)

lemma sorted_sample_epochs:
  assumes "0 < st"
  shows "sorted_wrt (<) (sample_epochs steps st now)"
proof -
  have "\<And>a b. a < b \<Longrightarrow> when_of now st a < when_of now st b"
    using assms by (simp add: when_of_def)
  then have "sorted_wrt (\<lambda>a b. when_of now st a < when_of now st b) (sample_indices steps)"
    using sorted_sample_indices [of steps] by (auto intro: sorted_wrt_mono_rel)
  then show ?thesis
    by (simp only: sample_epochs_def sorted_wrt_map)
qed

lemma sorted_kept_epochs:
  "sorted_wrt (<) ws \<Longrightarrow> sorted_wrt (<) (kept_epochs lib satrec ws)"
  by (simp add: kept_epochs_def sorted_wrt_filter)

lemma length_kept_epochs: "length (kept_epochs lib satrec ws) \<le> length ws"
  by (simp add: kept_epochs_def)

lemma kept_epochs_all:
  "list_all (\<lambda>w. propagate lib satrec w \<noteq> NoState) ws \<Longrightarrow> kept_epochs lib satrec ws = ws"
  by (simp add: kept_epochs_def list_all_iff)

section \<open>Starting a session, ticking, and the stand-in library\<close>

lemma start_session_failed:
  "twoline2satrec lib (line1 tle) (line2 tle) = None \<Longrightarrow>
     start_session lib tle norad now s =
       s\<lparr>outputs := outputs s @
          [Alert ''Failed to parse TLE. Paste a valid 2-line element or try another ID.'',
           ConsoleError ''err'']\<rparr>"
  by (simp add: start_session_def emit_def)

lemma start_session_started:
  assumes "twoline2satrec lib (line1 tle) (line2 tle) = Some r"
  shows "orbitLayer (start_session lib tle norad now s) = [plotOrbit_path lib r (Some 360) (Some 60) now]"
    and "updateHandle (start_session lib tle norad now s) = Some (nextTimer s)"
    and "nextTimer (start_session lib tle norad now s) = Suc (nextTimer s)"
    and "timers (start_session lib tle norad now s) (nextTimer s) =
           Some \<lparr>cb_satrec = r,
                 cb_meta = \<lparr>meta_name = tle_name tle,
                            meta_id = (case norad of None \<Rightarrow> dash | Some n \<Rightarrow> n)\<rparr>,
                 period_ms = 1000\<rparr>"
    and "outputs (start_session lib tle norad now s) = outputs s"
    and "telemetryPanel (start_session lib tle norad now s) = telemetryPanel s"
    and "satMarker (start_session lib tle norad now s) = None"
  using assms
  by (simp_all add: start_session_def startUpdating_frame startUpdating_timers plotOrbit_frame
        clearOrbit_frame clearOrbit_clears)

lemma tick_outputs_commute:
  "tick lib r m now (s\<lparr>outputs := ms\<rparr>) = (tick lib r m now s)\<lparr>outputs := ms\<rparr>"
  by (simp add: tick_def showTelemetry_def Let_def split: pv.split option.split)

lemma fire_outputs_commute:
  "fire lib h now (s\<lparr>outputs := ms\<rparr>) = (fire lib h now s)\<lparr>outputs := ms\<rparr>"
  by (simp add: fire_def tick_outputs_commute split: option.split)

lemma tick_shows:
  assumes "propagate lib r now = State pos v"
  shows "telemetryPanel (tick lib r m now s) =
     \<lparr>panel_display = DisplayBlock,
      panel_fields = Some
        \<lparr>obj_name = or_dash (meta_name m), obj_id = or_dash (meta_id m),
         lat = degreesLat lib (latitude (eciToGeodetic lib pos (gstime lib now))),
         lng = normalize_lon (degreesLong lib (longitude (eciToGeodetic lib pos (gstime lib now)))),
         alt = height (eciToGeodetic lib pos (gstime lib now)),
         vel = sqrt (x v * x v + y v * y v + z v * z v),
         ts = now\<rparr>\<rparr>"
  using assms
  by (simp add: tick_def showTelemetry_def Let_def split: option.split)

lemma tick_no_state: "propagate lib r now = NoState \<Longrightarrow> tick lib r m now s = s"
  by (simp add: tick_def)

lemma fire_live:
  "timers s h = Some t \<Longrightarrow> fire lib h now s = tick lib (cb_satrec t) (cb_meta t) now s"
  by (simp add: fire_def)

lemma resolve_tle_digits:
  assumes "all_digits (trim input)"
  shows "resolve_tle lib input res s =
           (case fst (CelestrakTLEByNORAD (trim input) res s) of None \<Rightarrow> sampleISS | Some t \<Rightarrow> t,
            Some (trim input), snd (CelestrakTLEByNORAD (trim input) res s))"
proof -
  have "trim input \<noteq> []" using assms by (simp add: all_digits_def)
  then show ?thesis using assms
    by (simp add: resolve_tle_def Let_def split_beta)
qed

lemma Celestrak_rejected:
  "CelestrakTLEByNORAD n None s = (None, emit (ConsoleWarn ''Celestrak fetch failed'') s)"
  by (simp add: CelestrakTLEByNORAD_def)

lemma Celestrak_few_lines:
  "length (tle_lines txt) < 2 \<Longrightarrow>
     CelestrakTLEByNORAD n (Some (Response True (Some txt))) s =
       (None, emit (ConsoleWarn ''Celestrak fetch failed'') s)"
  by (simp add: CelestrakTLEByNORAD_def Let_def)

lemma trackClick_resolved:
  "resolve_tle lib input res s = (tle, norad, s2) \<Longrightarrow>
     trackClick lib input res now s = start_session lib tle norad now s2"
  by (simp add: trackClick_def)

lemma demo_query: "trim (js ''25544'') = js ''25544''" "all_digits (js ''25544'')"
  by (simp_all add: js_def trim_def isWhiteSpace_def all_digits_def isDigit_def)

lemma demo_sample_satrec:
  "twoline2satrec demo_lib (line1 sampleISS) (line2 sampleISS) = Some demo_satrec"
  by (simp add: demo_lib_def demo_satrec_def sampleISS_def)

lemma demo_running_eq:
  "demo_running =
     start_session demo_lib sampleISS (Some (js ''25544'')) 10800000
       (emit (ConsoleWarn ''Celestrak fetch failed'') initMap)"
proof -
  have "resolve_tle demo_lib (js ''25544'') None initMap =
          (sampleISS, Some (js ''25544''),
           emit (ConsoleWarn ''Celestrak fetch failed'') (initMap :: (jsstring \<times> jsstring) tracker))"
    using resolve_tle_digits [of "js ''25544''" demo_lib None initMap]
    by (simp add: demo_query Celestrak_rejected)
  then show ?thesis
    by (simp add: demo_running_def run_def trackClick_resolved)
qed

lemma demo_running_timer:
  "updateHandle demo_running = Some 1"
  "timers demo_running 1 =
     Some \<lparr>cb_satrec = demo_satrec,
           cb_meta = \<lparr>meta_name = tle_name sampleISS, meta_id = js ''25544''\<rparr>,
           period_ms = 1000\<rparr>"
  "outputs demo_running = [ConsoleWarn ''Celestrak fetch failed'']"
  "orbitLayer demo_running = [plotOrbit_path demo_lib demo_satrec (Some 360) (Some 60) 10800000]"
  using start_session_started [OF demo_sample_satrec,
      of "Some (js ''25544'')" 10800000 "emit (ConsoleWarn ''Celestrak fetch failed'') initMap"]
  by (simp_all add: demo_running_eq emit_frame initMap_def)

lemma demo_running_reachable:
  "demo_running = run demo_lib [Track (js ''25544'') None 10800000] initMap"
  by (rule demo_running_def)

lemma sample_epochs_lower:
  assumes "0 \<le> st"
  shows "list_all (\<lambda>w. now - int (N div 2) * st * 1000 \<le> w) (sample_epochs (int N) st now)"
proof -
  have "now - int (N div 2) * st * 1000 \<le> sample_epochs (int N) st now ! k" if "k < N" for k
  proof -
    have "0 \<le> int k * st" using assms by simp
    then have "now - int (N div 2) * st * 1000 \<le> now + (int k - int (N div 2)) * st * 1000"
      by (simp add: algebra_simps)
    then show ?thesis using that by (simp only: nth_sample_epochs)
  qed
  then show ?thesis
    by (simp add: list_all_length length_sample_epochs)
qed

lemma demo_all_kept:
  assumes "0 \<le> st" and "0 \<le> now - int (N div 2) * st * 1000"
  shows "length (plotOrbit_path demo_lib r (Some (int N)) (Some st) now) = N"
proof -
  have "list_all (\<lambda>w. now - int (N div 2) * st * 1000 \<le> w) (sample_epochs (int N) st now)"
    using assms(1) by (rule sample_epochs_lower)
  then have "list_all (\<lambda>w. propagate demo_lib r w \<noteq> NoState) (sample_epochs (int N) st now)"
    using assms(2) by (auto simp: list_all_iff demo_lib_def)
  then have "kept_epochs demo_lib r (sample_epochs (int N) st now) = sample_epochs (int N) st now"
    by (rule kept_epochs_all)
  then show ?thesis
    by (simp add: plotOrbit_path_eq length_sample_epochs)
qed

lemma demo_one_line: "tle_lines (js ''1 25544U 98067A'') = [js ''1 25544U 98067A'']"
  by (simp add: tle_lines_def filter_Boolean_def js_def trim_def isWhiteSpace_def)

lemma demo_epochs3: "sample_epochs 3 60 30000 = [- 30000, 30000, 90000]"
proof -
  have "sample_indices 3 = [- 1, 0, 1]"
    by (simp add: sample_indices_eq upto_rec1)
  then show ?thesis by (simp add: sample_epochs_def when_of_def)
qed

lemma demo_running_timer_Suc:
  "timers demo_running (Suc 0) =
     Some \<lparr>cb_satrec = demo_satrec,
           cb_meta = \<lparr>meta_name = tle_name sampleISS, meta_id = js ''25544''\<rparr>,
           period_ms = 1000\<rparr>"
  using demo_running_timer(2) by simp

lemma demo_fail: "propagate demo_lib demo_satrec (- 1) = NoState"
  "propagate demo_lib demo_satrec (- 1001) = NoState"
  by (simp_all add: demo_lib_def)

lemma stopClick_idem: "stopClick (stopClick s) = stopClick s"
  by (simp add: stopClick_def Let_def clearOrbit_def clearInterval_def truthy_handle_def
        split: option.split)

lemma run_fires_no_timers:
  assumes "timers s = Map.empty"
  shows "run lib (map (\<lambda>(k, now). Fire k now) ticks) s = s"
proof (induction ticks)
  case Nil
  then show ?case by (simp add: run_def)
next
  case (Cons a ticks)
  obtain k now where a: "a = (k, now)" by (cases a)
  have "fire lib k now s = s" using assms by (simp add: fire_def)
  then show ?case using Cons a by (simp add: run_def)
qed

lemma startUpdating_dom:
  assumes "timer_inv s"
  shows "dom (timers (startUpdating lib r m s)) = {nextTimer s}"
proof -
  have "timer_inv (startUpdating lib r m s)"
    using assms by (rule startUpdating_timer_inv)
  then show ?thesis
    by (simp add: timer_inv_def startUpdating_timers(1))
qed

lemma tick_creates_marker:
  assumes "propagate lib r now = State pos v" and "satMarker s = None"
  shows "satMarker (tick lib r m now s) = Some (nextMarker s)"
    and "mapMarkers (tick lib r m now s) = mapMarkers s @ [nextMarker s]"
  using assms by (simp_all add: tick_def showTelemetry_def Let_def)

lemma start_session_markers:
  assumes "twoline2satrec lib (line1 tle) (line2 tle) = Some r" and "marker_inv s"
  shows "mapMarkers (start_session lib tle norad now s) = []"
    and "nextMarker (start_session lib tle norad now s) = nextMarker s"
  using assms
  by (simp_all add: start_session_def startUpdating_def setInterval_def clearInterval_def
        plotOrbit_def clearOrbit_def marker_inv_def Let_def split: option.split)

lemma demo_running_markers:
  "satMarker demo_running = None" "mapMarkers demo_running = []" "nextMarker demo_running = 0"
proof -
  have mi: "marker_inv (emit (ConsoleWarn ''Celestrak fetch failed'')
              (initMap :: (jsstring \<times> jsstring) tracker))"
    by (simp add: emit_inv initMap_inv)
  show "satMarker demo_running = None"
    unfolding demo_running_eq by (rule start_session_started [OF demo_sample_satrec])
  show "mapMarkers demo_running = []"
    unfolding demo_running_eq by (rule start_session_markers [OF demo_sample_satrec mi])
  show "nextMarker demo_running = 0"
    unfolding demo_running_eq start_session_markers(2) [OF demo_sample_satrec mi]
    by (simp add: emit_def initMap_def)
qed

lemma demo_first_tick:
  "run demo_lib [Track (js ''25544'') None 10800000, Fire 1 10801000] initMap =
     tick demo_lib demo_satrec \<lparr>meta_name = tle_name sampleISS, meta_id = js ''25544''\<rparr>
       10801000 demo_running"
proof -
  have "run demo_lib [Track (js ''25544'') None 10800000, Fire 1 10801000] initMap =
          fire demo_lib 1 10801000 demo_running"
    by (simp add: run_def demo_running_def)
  also have "\<dots> = tick demo_lib demo_satrec
       \<lparr>meta_name = tle_name sampleISS, meta_id = js ''25544''\<rparr> 10801000 demo_running"
    unfolding fire_live [OF demo_running_timer(2)] by simp
  finally show ?thesis .
qed

lemma demo_propagate_later:
  "propagate demo_lib demo_satrec 10801000 = State (Vec3 7000 0 0) (Vec3 0 1 0)"
  by (simp add: demo_lib_def)

lemma demo_name_lines:
  "filter_Boolean (map trim (split_nl (js ''ISS (ZARYA)''))) = [js ''ISS (ZARYA)'']"
  "trim (js ''ISS'') = js ''ISS''" "\<not> all_digits (js ''ISS'')" "js ''ISS'' \<noteq> []"
  "includes_str (js ''ISS (ZARYA)'') (js ''ISS'')" "js ''ISS (ZARYA)'' \<noteq> []"
  by (simp_all add: filter_Boolean_def js_def trim_def isWhiteSpace_def all_digits_def isDigit_def)

lemma demo_search:
  "search_stations demo_lib (js ''ISS'') [js ''ISS (ZARYA)''] 0 =
     Some \<lparr>tle_name = js ''ISS (ZARYA)'', line1 = None, line2 = None\<rparr>"
proof -
  have l: "toLowerCase demo_lib = (\<lambda>t. t)" by (simp add: demo_lib_def)
  show ?thesis
    by (subst search_stations.simps) (simp add: l demo_name_lines index_def)
qed

lemma demo_resolve_name:
  "resolve_tle demo_lib (js ''ISS'') (Some (Response True (Some (js ''ISS (ZARYA)'')))) s =
     (\<lparr>tle_name = js ''ISS (ZARYA)'', line1 = None, line2 = None\<rparr>, None, s)"
  by (simp add: resolve_tle_def name_search_def Let_def demo_name_lines demo_search)

lemma demo_undefined_lines: "twoline2satrec demo_lib None None = None"
  by (simp add: demo_lib_def)

section \<open>Malformed element sets at session start (C1)\<close>

text \<open>
  C1, as the code has it.  When the query is a catalogue number and the fetched text
  has fewer than two non-empty lines, \<^verbatim>\<open>CelestrakTLEByNORAD\<close> warns on the console
  and returns \<^verbatim>\<open>null\<close>; the click handler then takes the built-in sample ISS
  element set and starts a session for it.  If the library builds a record from the
  sample lines, the timer of the new session is started, with the number typed as its
  id, and the sample's orbit is plotted.  Only if building the record throws does the
  click end with the parse alert, and then nothing but the messages has changed.
\<close>

theorem C1_few_lines_fall_back_to_sample:
  assumes "all_digits (trim input)" and "length (tle_lines txt) < 2"
  shows "CelestrakTLEByNORAD (trim input) (Some (Response True (Some txt))) s =
           (None, emit (ConsoleWarn ''Celestrak fetch failed'') s)
       \<and> trackClick lib input (Some (Response True (Some txt))) now s =
           start_session lib sampleISS (Some (trim input)) now
             (emit (ConsoleWarn ''Celestrak fetch failed'') s)
       \<and> (\<forall>r. twoline2satrec lib (line1 sampleISS) (line2 sampleISS) = Some r \<longrightarrow>
             timers (trackClick lib input (Some (Response True (Some txt))) now s) (nextTimer s) =
               Some \<lparr>cb_satrec = r,
                     cb_meta = \<lparr>meta_name = tle_name sampleISS, meta_id = trim input\<rparr>,
                     period_ms = 1000\<rparr>
           \<and> orbitLayer (trackClick lib input (Some (Response True (Some txt))) now s) =
               [plotOrbit_path lib r (Some 360) (Some 60) now]
           \<and> outputs (trackClick lib input (Some (Response True (Some txt))) now s) =
               outputs s @ [ConsoleWarn ''Celestrak fetch failed''])
       \<and> (twoline2satrec lib (line1 sampleISS) (line2 sampleISS) = None \<longrightarrow>
             trackClick lib input (Some (Response True (Some txt))) now s =
               s\<lparr>outputs := outputs s @
                  [ConsoleWarn ''Celestrak fetch failed'',
                   Alert ''Failed to parse TLE. Paste a valid 2-line element or try another ID.'',
                   ConsoleError ''err'']\<rparr>)"
proof -
  let ?res = "Some (Response True (Some txt))"
  let ?s2 = "emit (ConsoleWarn ''Celestrak fetch failed'') s"
  have c: "CelestrakTLEByNORAD (trim input) ?res s = (None, ?s2)"
    using assms(2) by (rule Celestrak_few_lines)
  have "resolve_tle lib input ?res s = (sampleISS, Some (trim input), ?s2)"
    using resolve_tle_digits [OF assms(1), of lib ?res s] by (simp add: c)
  then have t: "trackClick lib input ?res now s =
                  start_session lib sampleISS (Some (trim input)) now ?s2"
    by (rule trackClick_resolved)
  have ok: "\<forall>r. twoline2satrec lib (line1 sampleISS) (line2 sampleISS) = Some r \<longrightarrow>
             timers (trackClick lib input ?res now s) (nextTimer s) =
               Some \<lparr>cb_satrec = r,
                     cb_meta = \<lparr>meta_name = tle_name sampleISS, meta_id = trim input\<rparr>,
                     period_ms = 1000\<rparr>
           \<and> orbitLayer (trackClick lib input ?res now s) =
               [plotOrbit_path lib r (Some 360) (Some 60) now]
           \<and> outputs (trackClick lib input ?res now s) =
               outputs s @ [ConsoleWarn ''Celestrak fetch failed'']"
  proof (intro allI impI)
    fix r
    assume r: "twoline2satrec lib (line1 sampleISS) (line2 sampleISS) = Some r"
    show "timers (trackClick lib input ?res now s) (nextTimer s) =
               Some \<lparr>cb_satrec = r,
                     cb_meta = \<lparr>meta_name = tle_name sampleISS, meta_id = trim input\<rparr>,
                     period_ms = 1000\<rparr>
           \<and> orbitLayer (trackClick lib input ?res now s) =
               [plotOrbit_path lib r (Some 360) (Some 60) now]
           \<and> outputs (trackClick lib input ?res now s) =
               outputs s @ [ConsoleWarn ''Celestrak fetch failed'']"
      using start_session_started [OF r, of "Some (trim input)" now ?s2]
      by (simp add: t emit_frame)
  qed
  have bad: "twoline2satrec lib (line1 sampleISS) (line2 sampleISS) = None \<longrightarrow>
             trackClick lib input ?res now s =
               s\<lparr>outputs := outputs s @
                  [ConsoleWarn ''Celestrak fetch failed'',
                   Alert ''Failed to parse TLE. Paste a valid 2-line element or try another ID.'',
                   ConsoleError ''err'']\<rparr>"
    by (simp add: t start_session_failed emit_def)
  show ?thesis using c t ok bad by blast
qed

theorem C1_few_lines_fall_back_to_sample_witness:
  "all_digits (trim (js ''25544''))
   \<and> length (tle_lines (js ''1 25544U 98067A'')) < 2
   \<and> twoline2satrec demo_lib (line1 sampleISS) (line2 sampleISS) = Some demo_satrec
   \<and> trackClick demo_lib (js ''25544'') (Some (Response True (Some (js ''1 25544U 98067A''))))
        10800000 initMap =
      start_session demo_lib sampleISS (Some (js ''25544'')) 10800000
        (emit (ConsoleWarn ''Celestrak fetch failed'') initMap)
   \<and> orbitLayer (trackClick demo_lib (js ''25544'')
        (Some (Response True (Some (js ''1 25544U 98067A'')))) 10800000 initMap) =
      [plotOrbit_path demo_lib demo_satrec (Some 360) (Some 60) 10800000]"
proof -
  have h1: "all_digits (trim (js ''25544''))" by (simp add: demo_query)
  have h2: "length (tle_lines (js ''1 25544U 98067A'')) < 2" by (simp add: demo_one_line)
  note th = C1_few_lines_fall_back_to_sample [OF h1 h2, of initMap demo_lib 10800000,
      unfolded demo_query(1)]
  from th have e: "trackClick demo_lib (js ''25544'')
        (Some (Response True (Some (js ''1 25544U 98067A'')))) 10800000 initMap =
      start_session demo_lib sampleISS (Some (js ''25544'')) 10800000
        (emit (ConsoleWarn ''Celestrak fetch failed'') initMap)"
    by blast
  from th demo_sample_satrec have o: "orbitLayer (trackClick demo_lib (js ''25544'')
        (Some (Response True (Some (js ''1 25544U 98067A'')))) 10800000 initMap) =
      [plotOrbit_path demo_lib demo_satrec (Some 360) (Some 60) 10800000]"
    by blast
  show ?thesis using h1 h2 demo_sample_satrec e o by blast
qed

text \<open>
  C1 as stated fails: the fetched text \<^verbatim>\<open>1 25544U 98067A\<close> has one line, and a
  click on the track button with it, on the fresh page, leaves the timer with handle 1
  live, a path of 360 points plotted and no alert; the first tick then shows the
  telemetry panel.
\<close>

theorem C1_counterexample:
  "length (tle_lines (js ''1 25544U 98067A'')) = 1
   \<and> updateHandle (trackClick demo_lib (js ''25544'')
        (Some (Response True (Some (js ''1 25544U 98067A'')))) 10800000 initMap) = Some 1
   \<and> timers (trackClick demo_lib (js ''25544'')
        (Some (Response True (Some (js ''1 25544U 98067A'')))) 10800000 initMap) 1 =
       Some \<lparr>cb_satrec = demo_satrec,
             cb_meta = \<lparr>meta_name = tle_name sampleISS, meta_id = js ''25544''\<rparr>,
             period_ms = 1000\<rparr>
   \<and> map length (orbitLayer (trackClick demo_lib (js ''25544'')
        (Some (Response True (Some (js ''1 25544U 98067A'')))) 10800000 initMap)) = [360]
   \<and> outputs (trackClick demo_lib (js ''25544'')
        (Some (Response True (Some (js ''1 25544U 98067A'')))) 10800000 initMap) =
       [ConsoleWarn ''Celestrak fetch failed'']
   \<and> panel_display (telemetryPanel (fire demo_lib 1 10801000 (trackClick demo_lib (js ''25544'')
        (Some (Response True (Some (js ''1 25544U 98067A'')))) 10800000 initMap))) = DisplayBlock"
proof -
  let ?s = "trackClick demo_lib (js ''25544'')
        (Some (Response True (Some (js ''1 25544U 98067A'')))) 10800000 initMap"
  have c: "CelestrakTLEByNORAD (trim (js ''25544'')) (Some (Response True (Some (js ''1 25544U 98067A''))))
             (initMap :: (jsstring \<times> jsstring) tracker) =
           (None, emit (ConsoleWarn ''Celestrak fetch failed'') initMap)"
    by (rule Celestrak_few_lines) (simp add: demo_one_line)
  have "resolve_tle demo_lib (js ''25544'') (Some (Response True (Some (js ''1 25544U 98067A''))))
          initMap = (sampleISS, Some (js ''25544''), emit (ConsoleWarn ''Celestrak fetch failed'') initMap)"
    using resolve_tle_digits [of "js ''25544''" demo_lib
        "Some (Response True (Some (js ''1 25544U 98067A'')))" initMap] c
    by (simp add: demo_query)
  then have t: "?s = start_session demo_lib sampleISS (Some (js ''25544'')) 10800000
                  (emit (ConsoleWarn ''Celestrak fetch failed'') initMap)"
    by (rule trackClick_resolved)
  note st = start_session_started [OF demo_sample_satrec,
      of "Some (js ''25544'')" 10800000 "emit (ConsoleWarn ''Celestrak fetch failed'') initMap"]
  have n: "nextTimer (emit (ConsoleWarn ''Celestrak fetch failed'')
             (initMap :: (jsstring \<times> jsstring) tracker)) = 1"
    by (simp add: emit_frame initMap_def)
  have 1: "length (tle_lines (js ''1 25544U 98067A'')) = 1" by (simp add: demo_one_line)
  have 2: "updateHandle ?s = Some 1" using st(2) n by (simp add: t)
  have 3: "timers ?s 1 = Some \<lparr>cb_satrec = demo_satrec,
             cb_meta = \<lparr>meta_name = tle_name sampleISS, meta_id = js ''25544''\<rparr>,
             period_ms = 1000\<rparr>"
    using st(4) n by (simp add: t)
  have "length (plotOrbit_path demo_lib demo_satrec (Some (int 360)) (Some 60) 10800000) = 360"
    by (rule demo_all_kept) simp_all
  then have 4: "map length (orbitLayer ?s) = [360]" using st(1) by (simp add: t)
  have o0: "outputs (emit (ConsoleWarn ''Celestrak fetch failed'')
              (initMap :: (jsstring \<times> jsstring) tracker)) = [ConsoleWarn ''Celestrak fetch failed'']"
    by (simp add: emit_frame initMap_def)
  have 5: "outputs ?s = [ConsoleWarn ''Celestrak fetch failed'']"
    unfolding t st(5) by (rule o0)
  have "propagate demo_lib demo_satrec 10801000 = State (Vec3 7000 0 0) (Vec3 0 1 0)"
    by (simp add: demo_lib_def)
  then have 6: "panel_display (telemetryPanel (fire demo_lib 1 10801000 ?s)) = DisplayBlock"
    unfolding fire_live [OF 3] by (simp add: tick_shows)
  show ?thesis using 1 2 3 4 5 6 by blast
qed

section \<open>Longitude normalization (C2)\<close>

lemma normalize_lon_range_iff:
  "(- 180 < normalize_lon L \<and> normalize_lon L \<le> 180) \<longleftrightarrow> (- 180 < L \<and> L \<le> 540)"
  by (auto simp: normalize_lon_def)

lemma normalize_lon_shift_iff:
  "normalize_lon (L + 360 * real_of_int k) = normalize_lon L \<longleftrightarrow>
     k = 0 \<or> (k = 1 \<and> - 180 < L \<and> L \<le> 180) \<or> (k = - 1 \<and> 180 < L \<and> L \<le> 540)"
proof -
  consider "k \<le> - 2" | "k = - 1" | "k = 0" | "k = 1" | "2 \<le> k" by linarith
  then show ?thesis
  proof cases
    case 1
    then have "real_of_int k \<le> - 2" by linarith
    then show ?thesis using 1 by (auto simp: normalize_lon_def split: if_splits)
  next
    case 2
    then show ?thesis by (auto simp: normalize_lon_def split: if_splits)
  next
    case 3
    then show ?thesis by simp
  next
    case 4
    then show ?thesis by (auto simp: normalize_lon_def split: if_splits)
  next
    case 5
    then have "2 \<le> real_of_int k" by linarith
    then show ?thesis using 5 by (auto simp: normalize_lon_def split: if_splits)
  qed
qed

text \<open>
  C2, as the code has it.  The normalization of the telemetry longitude subtracts 360
  once, when the raw value exceeds 180.  So the result lies in \<open>(-180, 180]\<close> exactly for
  the raw values in \<open>(-180, 540]\<close>, and \<open>normalize (L + 360 k) = normalize L\<close> holds
  exactly when \<open>k = 0\<close>, or \<open>k = 1\<close> and \<open>L\<close> is in \<open>(-180, 180]\<close>, or \<open>k = -1\<close> and
  \<open>L\<close> is in \<open>(180, 540]\<close>.
\<close>

theorem C2_normalize_lon_single_wrap:
  "((- 180 < normalize_lon L \<and> normalize_lon L \<le> 180) \<longleftrightarrow> (- 180 < L \<and> L \<le> 540)) \<and>
   (normalize_lon (L + 360 * real_of_int k) = normalize_lon L \<longleftrightarrow>
      k = 0 \<or> (k = 1 \<and> - 180 < L \<and> L \<le> 180) \<or> (k = - 1 \<and> 180 < L \<and> L \<le> 540))"
  using normalize_lon_range_iff [of L] normalize_lon_shift_iff [of L k] by blast

theorem C2_normalize_lon_single_wrap_witness:
  "- 180 < normalize_lon 200 \<and> normalize_lon 200 \<le> 180 \<and>
   normalize_lon (200 + 360 * real_of_int (- 1)) = normalize_lon 200"
  using C2_normalize_lon_single_wrap [of 200 "- 1"] by simp

text \<open>
  C2 as stated fails: the raw longitude 541 is normalized to 181, outside
  \<open>(-180, 180]\<close>; the raw longitude -180 stays -180, outside it as well; and 0 and
  \<open>0 + 360 * 2\<close> are normalized to different values.
\<close>

theorem C2_normalize_lon_counterexample:
  "normalize_lon 541 = 181 \<and> \<not> normalize_lon 541 \<le> 180 \<and>
   normalize_lon (- 180) = - 180 \<and> \<not> - 180 < normalize_lon (- 180) \<and>
   normalize_lon (0 + 360 * real_of_int 2) \<noteq> normalize_lon 0"
  by (simp add: normalize_lon_def)

section \<open>The path sampler (C3)\<close>

text \<open>
  C3.  For a sample count \<open>N\<close> and a positive step, the path that \<^verbatim>\<open>plotOrbit\<close>
  draws consists of the points of exactly those sampled epochs at which propagation
  gives a position, in the order of the epochs, which increase strictly; so it has at
  most \<open>N\<close> points, and exactly \<open>N\<close> when propagation succeeds at every sampled epoch.
  The function always ends by putting this one path on the orbit layer, whatever
  epochs failed.
\<close>

theorem C3_path_sampler:
  assumes "0 < secondsStep"
  shows "plotOrbit_path lib satrec (Some (int N)) (Some secondsStep) now =
           map (point_at lib satrec)
             (kept_epochs lib satrec (sample_epochs (int N) secondsStep now))
       \<and> sorted_wrt (<) (kept_epochs lib satrec (sample_epochs (int N) secondsStep now))
       \<and> length (plotOrbit_path lib satrec (Some (int N)) (Some secondsStep) now) \<le> N
       \<and> (list_all (\<lambda>w. propagate lib satrec w \<noteq> NoState) (sample_epochs (int N) secondsStep now)
            \<longrightarrow> length (plotOrbit_path lib satrec (Some (int N)) (Some secondsStep) now) = N)
       \<and> orbitLayer (plotOrbit lib satrec (Some (int N)) (Some secondsStep) now s) =
           [plotOrbit_path lib satrec (Some (int N)) (Some secondsStep) now]"
proof -
  let ?ws = "sample_epochs (int N) secondsStep now"
  let ?p = "plotOrbit_path lib satrec (Some (int N)) (Some secondsStep) now"
  have eq: "?p = map (point_at lib satrec) (kept_epochs lib satrec ?ws)"
    by (rule plotOrbit_path_eq)
  have srt: "sorted_wrt (<) (kept_epochs lib satrec ?ws)"
    using assms by (intro sorted_kept_epochs sorted_sample_epochs)
  have "length ?p = length (kept_epochs lib satrec ?ws)"
    by (simp only: eq length_map)
  moreover have "length (kept_epochs lib satrec ?ws) \<le> length ?ws"
    by (rule length_kept_epochs)
  moreover have lw: "length ?ws = N"
    by (rule length_sample_epochs)
  ultimately have le: "length ?p \<le> N" by simp
  have full: "list_all (\<lambda>w. propagate lib satrec w \<noteq> NoState) ?ws \<longrightarrow> length ?p = N"
  proof
    assume "list_all (\<lambda>w. propagate lib satrec w \<noteq> NoState) ?ws"
    then have "kept_epochs lib satrec ?ws = ?ws" by (rule kept_epochs_all)
    then show "length ?p = N" using lw by (simp only: eq length_map)
  qed
  have lay: "orbitLayer (plotOrbit lib satrec (Some (int N)) (Some secondsStep) now s) = [?p]"
    by (rule plotOrbit_frame)
  show ?thesis using eq srt le full lay by blast
qed

text \<open>
  An instance: three samples a minute apart around the instant 30000 ms.  The first
  epoch is before time 0, where the stand-in library fails, and is left out; the two
  others are kept, in order.  With the same step around 10800000 ms every one of 360
  epochs succeeds and the path has 360 points.
\<close>

theorem C3_path_sampler_witness:
  "(0::int) < 60
   \<and> kept_epochs demo_lib demo_satrec (sample_epochs (int 3) 60 30000) = [30000, 90000]
   \<and> length (plotOrbit_path demo_lib demo_satrec (Some (int 3)) (Some 60) 30000) = 2
   \<and> sorted_wrt (<) (kept_epochs demo_lib demo_satrec (sample_epochs (int 3) 60 30000))
   \<and> list_all (\<lambda>w. propagate demo_lib demo_satrec w \<noteq> NoState)
        (sample_epochs (int 360) 60 10800000)
   \<and> length (plotOrbit_path demo_lib demo_satrec (Some (int 360)) (Some 60) 10800000) = 360"
proof -
  have h: "(0::int) < 60" by simp
  have k: "kept_epochs demo_lib demo_satrec (sample_epochs (int 3) 60 30000) = [30000, 90000]"
    by (simp add: demo_epochs3 kept_epochs_def demo_lib_def)
  have "list_all (\<lambda>w. 10800000 - int (360 div 2) * 60 * 1000 \<le> w)
          (sample_epochs (int 360) 60 10800000)"
    by (rule sample_epochs_lower) simp
  then have a: "list_all (\<lambda>w. propagate demo_lib demo_satrec w \<noteq> NoState)
        (sample_epochs (int 360) 60 10800000)"
    by (auto simp: list_all_iff demo_lib_def)
  note t3 = C3_path_sampler [OF h, of demo_lib demo_satrec 3 30000 initMap]
  note t360 = C3_path_sampler [OF h, of demo_lib demo_satrec 360 10800000 initMap]
  from t3 k have l: "length (plotOrbit_path demo_lib demo_satrec (Some (int 3)) (Some 60) 30000) = 2"
    by simp
  from t3 have s: "sorted_wrt (<) (kept_epochs demo_lib demo_satrec (sample_epochs (int 3) 60 30000))"
    by blast
  from t360 a have f: "length (plotOrbit_path demo_lib demo_satrec (Some (int 360)) (Some 60) 10800000) = 360"
    by blast
  show ?thesis using h k l s a f by blast
qed

section \<open>The sampling policy of the path sampler (C4)\<close>

text \<open>
  C4, as the code has it.  \<^verbatim>\<open>plotOrbit\<close> takes a sample count that defaults to
  240 and a step that defaults to 60 seconds; the track button passes 360 and 60.  For a
  count \<open>N\<close> it visits \<open>N\<close> epochs, the \<open>k\<close>-th (from 0) being
  \<open>now + (k - \<lfloor>N/2\<rfloor>) * step\<close> seconds: they start \<open>\<lfloor>N/2\<rfloor>\<close> steps before now, are one
  step apart, and the path holds the points of those at which propagation succeeds.
\<close>

theorem C4_sampling_policy:
  "plotOrbit_path lib satrec None None now = plotOrbit_path lib satrec (Some 240) (Some 60) now
   \<and> plotOrbit_path lib satrec (Some (int N)) (Some secondsStep) now =
       map (point_at lib satrec) (kept_epochs lib satrec (sample_epochs (int N) secondsStep now))
   \<and> length (sample_epochs (int N) secondsStep now) = N
   \<and> (\<forall>k<N. sample_epochs (int N) secondsStep now ! k =
               now + (int k - int (N div 2)) * secondsStep * 1000)
   \<and> (\<forall>r. twoline2satrec lib (line1 tle) (line2 tle) = Some r \<longrightarrow>
          orbitLayer (start_session lib tle norad now s) =
            [plotOrbit_path lib r (Some 360) (Some 60) now])"
proof -
  have "plotOrbit_path lib satrec None None now = plotOrbit_path lib satrec (Some 240) (Some 60) now"
    by (simp add: plotOrbit_path_defaults)
  moreover have "plotOrbit_path lib satrec (Some (int N)) (Some secondsStep) now =
       map (point_at lib satrec) (kept_epochs lib satrec (sample_epochs (int N) secondsStep now))"
    by (rule plotOrbit_path_eq)
  moreover have "length (sample_epochs (int N) secondsStep now) = N"
    by (rule length_sample_epochs)
  moreover have "\<forall>k<N. sample_epochs (int N) secondsStep now ! k =
               now + (int k - int (N div 2)) * secondsStep * 1000"
    by (simp add: nth_sample_epochs)
  moreover have "\<forall>r. twoline2satrec lib (line1 tle) (line2 tle) = Some r \<longrightarrow>
          orbitLayer (start_session lib tle norad now s) =
            [plotOrbit_path lib r (Some 360) (Some 60) now]"
    by (simp add: start_session_started)
  ultimately show ?thesis by blast
qed

theorem C4_sampling_policy_witness:
  "(0::nat) < 360
   \<and> sample_epochs (int 360) 60 10800000 ! 0 = 0
   \<and> (179::nat) < 360
   \<and> sample_epochs (int 360) 60 10800000 ! 179 = 10740000
   \<and> twoline2satrec demo_lib (line1 sampleISS) (line2 sampleISS) = Some demo_satrec
   \<and> orbitLayer (start_session demo_lib sampleISS None 10800000 initMap) =
       [plotOrbit_path demo_lib demo_satrec (Some 360) (Some 60) 10800000]"
  using C4_sampling_policy [of demo_lib demo_satrec 10800000 360 60 sampleISS None initMap]
    demo_sample_satrec
  by simp

text \<open>
  C4 as stated fails: with both arguments left out, and a library that propagates at
  every epoch visited, the path has 240 points, not 360.
\<close>

theorem C4_counterexample:
  "length (plotOrbit_path demo_lib demo_satrec None None 10800000) = 240 \<and>
   length (plotOrbit_path demo_lib demo_satrec None None 10800000) \<noteq> 360"
proof -
  have "length (plotOrbit_path demo_lib demo_satrec (Some (int 240)) (Some 60) 10800000) = 240"
    by (rule demo_all_kept) simp_all
  then show ?thesis
    by (simp add: plotOrbit_path_defaults)
qed

section \<open>Ticks at which propagation fails (C5)\<close>

text \<open>
  C5, as the code has it.  A tick of a live timer at which propagation fails returns at
  once (\<^verbatim>\<open>if(!pv.position) return;\<close>): after any run of such ticks the page is
  exactly as before.  The telemetry shown, the marker and the map keep their last
  values, no error is raised, and nothing is written to the console or alerted: the
  failure is skipped silently.
\<close>

theorem C5_failed_ticks_change_nothing:
  assumes "list_all (\<lambda>(h, now). case timers s h of None \<Rightarrow> False
                       | Some t \<Rightarrow> propagate lib (cb_satrec t) now = NoState) ticks"
  shows "run lib (map (\<lambda>(h, now). Fire h now) ticks) s = s"
  using assms
proof (induction ticks)
  case Nil
  then show ?case by (simp add: run_def)
next
  case (Cons a ticks)
  obtain h now where a: "a = (h, now)" by (cases a)
  from Cons.prems a obtain t where t: "timers s h = Some t"
    and f: "propagate lib (cb_satrec t) now = NoState"
    by (auto split: option.splits)
  have "fire lib h now s = s"
    by (simp add: fire_live [OF t] tick_no_state [OF f])
  moreover have "run lib (map (\<lambda>(h, now). Fire h now) ticks) s = s"
    using Cons by simp
  ultimately show ?case
    using a by (simp add: run_def)
qed

theorem C5_failed_ticks_change_nothing_witness:
  "list_all (\<lambda>(h, now). case timers demo_running h of None \<Rightarrow> False
               | Some t \<Rightarrow> propagate demo_lib (cb_satrec t) now = NoState) [(1, - 1001), (1, - 1)]
   \<and> run demo_lib [Fire 1 (- 1001), Fire 1 (- 1)] demo_running = demo_running"
proof -
  have h: "list_all (\<lambda>(h, now). case timers demo_running h of None \<Rightarrow> False
               | Some t \<Rightarrow> propagate demo_lib (cb_satrec t) now = NoState) [(1, - 1001), (1, - 1)]"
    by (simp add: demo_running_timer_Suc demo_fail)
  show ?thesis
    using C5_failed_ticks_change_nothing [OF h] h by simp
qed

text \<open>
  C5 as stated fails in its clause that the failure is logged or reported: the timer
  with handle 1 of the running page is live, propagation fails at the instant -1, and
  the tick at that instant leaves the messages, and the whole page, as they were.
\<close>

theorem C5_counterexample:
  "timers demo_running 1 \<noteq> None
   \<and> propagate demo_lib (cb_satrec (the (timers demo_running 1))) (- 1) = NoState
   \<and> outputs (fire demo_lib 1 (- 1) demo_running) = outputs demo_running
   \<and> fire demo_lib 1 (- 1) demo_running = demo_running"
proof -
  have f: "propagate demo_lib (cb_satrec (the (timers demo_running 1))) (- 1) = NoState"
    by (simp add: demo_running_timer_Suc demo_fail)
  have "fire demo_lib 1 (- 1) demo_running = demo_running"
    unfolding fire_live [OF demo_running_timer(2)]
    by (rule tick_no_state) (simp add: demo_fail)
  then show ?thesis using f by (simp add: demo_running_timer_Suc)
qed

section \<open>The speed shown (C6)\<close>

text \<open>
  C6.  When a live timer ticks and propagation gives a state vector, the speed shown in
  the telemetry panel is the Euclidean norm \<open>sqrt (vx\<^sup>2 + vy\<^sup>2 + vz\<^sup>2)\<close> of the
  velocity that \<^verbatim>\<open>propagate\<close> returned, the inertial velocity; the converted geodetic
  position plays no part in it.
\<close>

theorem C6_speed_is_norm_of_velocity:
  assumes "timers s h = Some t" and "propagate lib (cb_satrec t) now = State pos v"
  shows "map_option vel (panel_fields (telemetryPanel (fire lib h now s))) =
           Some (sqrt ((x v)\<^sup>2 + (y v)\<^sup>2 + (z v)\<^sup>2))
       \<and> map_option vel (panel_fields (telemetryPanel (tick lib (cb_satrec t) (cb_meta t) now s))) =
           Some (sqrt ((x v)\<^sup>2 + (y v)\<^sup>2 + (z v)\<^sup>2))"
  by (simp add: fire_live [OF assms(1)] tick_shows [OF assms(2)] power2_eq_square)

theorem C6_speed_is_norm_of_velocity_witness:
  "timers demo_running 1 =
     Some \<lparr>cb_satrec = demo_satrec,
           cb_meta = \<lparr>meta_name = tle_name sampleISS, meta_id = js ''25544''\<rparr>,
           period_ms = 1000\<rparr>
   \<and> propagate demo_lib demo_satrec 10801000 = State (Vec3 7000 0 0) (Vec3 0 1 0)
   \<and> map_option vel (panel_fields (telemetryPanel (fire demo_lib 1 10801000 demo_running))) = Some 1"
proof -
  have p: "propagate demo_lib (cb_satrec \<lparr>cb_satrec = demo_satrec,
           cb_meta = \<lparr>meta_name = tle_name sampleISS, meta_id = js ''25544''\<rparr>,
           period_ms = 1000\<rparr>) 10801000 = State (Vec3 7000 0 0) (Vec3 0 1 0)"
    by (simp add: demo_lib_def)
  show ?thesis
    using C6_speed_is_norm_of_velocity [OF demo_running_timer(2) p] demo_running_timer(2) p
    by simp
qed

section \<open>Starting while a timer runs (C7)\<close>

text \<open>
  C7.  On any page reached from the initial one whose \<^verbatim>\<open>updateHandle\<close> names a
  timer \<open>h\<close>, \<^verbatim>\<open>startUpdating\<close> cancels \<open>h\<close> and then arms the new timer, with a
  period of 1000 ms: afterwards the new timer is the only live one.  At most one timer
  is live on every reachable page, before and ever after, and the old handle is never
  live again, so that whatever happens later the old session's callback is not run.
\<close>

theorem C7_start_cancels_prior_timer:
  assumes "s = run lib es initMap" and "updateHandle s = Some h"
  shows "timers (startUpdating lib satrec m s) h = None
       \<and> dom (timers (startUpdating lib satrec m s)) = {nextTimer s}
       \<and> timers (startUpdating lib satrec m s) (nextTimer s) =
           Some \<lparr>cb_satrec = satrec, cb_meta = m, period_ms = 1000\<rparr>
       \<and> updateHandle (startUpdating lib satrec m s) = Some (nextTimer s)
       \<and> card (dom (timers s)) \<le> 1
       \<and> card (dom (timers (run lib es' (startUpdating lib satrec m s)))) \<le> 1
       \<and> timers (run lib es' (startUpdating lib satrec m s)) h = None
       \<and> fire lib h now (run lib es' (startUpdating lib satrec m s)) =
           run lib es' (startUpdating lib satrec m s)"
proof -
  let ?s' = "startUpdating lib satrec m s"
  have inv: "timer_inv s" unfolding assms(1) by (rule reachable_inv)
  have d: "dead h ?s'" using inv assms(2) by (rule startUpdating_kills)
  have inv': "timer_inv ?s'" using inv by (rule startUpdating_timer_inv)
  have dl: "dead h (run lib es' ?s')" using d by (rule run_dead)
  have 1: "timers ?s' h = None" using d by (simp add: dead_def)
  have 2: "dom (timers ?s') = {nextTimer s}" using inv by (rule startUpdating_dom)
  have 3: "timers ?s' (nextTimer s) = Some \<lparr>cb_satrec = satrec, cb_meta = m, period_ms = 1000\<rparr>"
    by (simp add: startUpdating_timers)
  have 4: "updateHandle ?s' = Some (nextTimer s)" by (rule startUpdating_timers)
  have 5: "card (dom (timers s)) \<le> 1" using inv by (rule timer_inv_card)
  have 6: "card (dom (timers (run lib es' ?s'))) \<le> 1"
    using inv' by (intro timer_inv_card run_timer_inv)
  have 7: "timers (run lib es' ?s') h = None" using dl by (simp add: dead_def)
  have 8: "fire lib h now (run lib es' ?s') = run lib es' ?s'" using dl by (rule fire_dead)
  show ?thesis using 1 2 3 4 5 6 7 8 by blast
qed

theorem C7_start_cancels_prior_timer_witness:
  "demo_running = run demo_lib [Track (js ''25544'') None 10800000] initMap
   \<and> updateHandle demo_running = Some 1
   \<and> timers (startUpdating demo_lib demo_satrec
                \<lparr>meta_name = js ''second'', meta_id = dash\<rparr> demo_running) 1 = None
   \<and> updateHandle (startUpdating demo_lib demo_satrec
                \<lparr>meta_name = js ''second'', meta_id = dash\<rparr> demo_running) =
        Some (nextTimer demo_running)
   \<and> fire demo_lib 1 10802000
        (run demo_lib [Fire 2 10801000]
           (startUpdating demo_lib demo_satrec
              \<lparr>meta_name = js ''second'', meta_id = dash\<rparr> demo_running)) =
      run demo_lib [Fire 2 10801000]
        (startUpdating demo_lib demo_satrec
           \<lparr>meta_name = js ''second'', meta_id = dash\<rparr> demo_running)"
  using C7_start_cancels_prior_timer [OF demo_running_def demo_running_timer(1),
      of demo_satrec "\<lparr>meta_name = js ''second'', meta_id = dash\<rparr>" "[Fire 2 10801000]" 10802000]
    demo_running_def demo_running_timer(1)
  by blast

section \<open>Stopping (C8)\<close>

text \<open>
  C8.  On any page reached from the initial one whose \<^verbatim>\<open>updateHandle\<close> names a
  timer \<open>h\<close>, the stop button cancels it: no timer is live after the click, the handle
  \<open>h\<close> is never live again whatever events follow (further clicks included), a firing
  of \<open>h\<close> changes nothing at any later point, and any run of timer firings right after
  the stop leaves the page as the stop left it.  Stopping a page that is already
  stopped changes nothing, for every page, and the handler has no failing path.
\<close>

theorem C8_stop_cancels_for_good:
  assumes "s = run lib es initMap" and "updateHandle s = Some h"
  shows "timers (stopClick s) = Map.empty
       \<and> updateHandle (stopClick s) = None
       \<and> timers (run lib es' (stopClick s)) h = None
       \<and> fire lib h now (run lib es' (stopClick s)) = run lib es' (stopClick s)
       \<and> run lib (map (\<lambda>(k, now). Fire k now) ticks) (stopClick s) = stopClick s
       \<and> stopClick (stopClick s) = stopClick s
       \<and> stopClick (stopClick u) = stopClick u"
proof -
  have inv: "timer_inv s" unfolding assms(1) by (rule reachable_inv)
  have 1: "timers (stopClick s) = Map.empty" using inv by (rule stopClick_no_timers)
  have 2: "updateHandle (stopClick s) = None" by (rule stopClick_frame)
  have "dead h (stopClick s)" using inv assms(2) by (rule stopClick_kills)
  then have dl: "dead h (run lib es' (stopClick s))" by (rule run_dead)
  have 3: "timers (run lib es' (stopClick s)) h = None" using dl by (simp add: dead_def)
  have 4: "fire lib h now (run lib es' (stopClick s)) = run lib es' (stopClick s)"
    using dl by (rule fire_dead)
  have 5: "run lib (map (\<lambda>(k, now). Fire k now) ticks) (stopClick s) = stopClick s"
    using 1 by (rule run_fires_no_timers)
  show ?thesis using 1 2 3 4 5 stopClick_idem [of s] stopClick_idem [of u] by simp
qed

theorem C8_stop_cancels_for_good_witness:
  "demo_running = run demo_lib [Track (js ''25544'') None 10800000] initMap
   \<and> updateHandle demo_running = Some 1
   \<and> timers (stopClick demo_running) = Map.empty
   \<and> timers (run demo_lib [Fire 1 10801000, Track (js ''25544'') None 10802000, Fire 1 10803000]
        (stopClick demo_running)) 1 = None
   \<and> run demo_lib (map (\<lambda>(k, now). Fire k now) [(1, 10801000), (1, 10802000)])
        (stopClick demo_running) = stopClick demo_running
   \<and> stopClick (stopClick demo_running) = stopClick demo_running"
  using C8_stop_cancels_for_good [OF demo_running_def demo_running_timer(1),
      of "[Fire 1 10801000, Track (js ''25544'') None 10802000, Fire 1 10803000]" 0
         "[(1, 10801000), (1, 10802000)]" demo_running]
    demo_running_def demo_running_timer(1)
  by blast

section \<open>What stopping removes (C9)\<close>

text \<open>
  C9.  On every page reached from the initial one, a click on the stop button empties
  the orbit layer, removes the satellite marker from the map and forgets it, hides the
  telemetry panel, and leaves no live timer.
\<close>

theorem C9_stop_clears_display:
  "orbitLayer (stopClick (run lib es initMap)) = []
   \<and> satMarker (stopClick (run lib es initMap)) = None
   \<and> mapMarkers (stopClick (run lib es initMap)) = []
   \<and> panel_display (telemetryPanel (stopClick (run lib es initMap))) = DisplayNone
   \<and> timers (stopClick (run lib es initMap)) = Map.empty
   \<and> updateHandle (stopClick (run lib es initMap)) = None"
proof -
  let ?s = "run lib es initMap"
  have "marker_inv ?s" by (rule reachable_inv)
  then have m: "mapMarkers (stopClick ?s) = []" by (rule stopClick_mapMarkers)
  have "timer_inv ?s" by (rule reachable_inv)
  then have t: "timers (stopClick ?s) = Map.empty" by (rule stopClick_no_timers)
  show ?thesis using m t by (simp add: stopClick_frame)
qed

text \<open>
  An instance: after a click on the track button and one tick there are a path, the
  marker 0 on the map and a visible panel; after the stop there is none of them.
\<close>

theorem C9_stop_clears_display_witness:
  "orbitLayer (run demo_lib [Track (js ''25544'') None 10800000, Fire 1 10801000] initMap) \<noteq> []
   \<and> satMarker (run demo_lib [Track (js ''25544'') None 10800000, Fire 1 10801000] initMap) = Some 0
   \<and> mapMarkers (run demo_lib [Track (js ''25544'') None 10800000, Fire 1 10801000] initMap) = [0]
   \<and> panel_display (telemetryPanel
        (run demo_lib [Track (js ''25544'') None 10800000, Fire 1 10801000] initMap)) = DisplayBlock
   \<and> orbitLayer (stopClick
        (run demo_lib [Track (js ''25544'') None 10800000, Fire 1 10801000] initMap)) = []
   \<and> satMarker (stopClick
        (run demo_lib [Track (js ''25544'') None 10800000, Fire 1 10801000] initMap)) = None
   \<and> mapMarkers (stopClick
        (run demo_lib [Track (js ''25544'') None 10800000, Fire 1 10801000] initMap)) = []
   \<and> panel_display (telemetryPanel (stopClick
        (run demo_lib [Track (js ''25544'') None 10800000, Fire 1 10801000] initMap))) = DisplayNone"
proof -
  let ?m = "\<lparr>meta_name = tle_name sampleISS, meta_id = js ''25544''\<rparr>"
  let ?t = "tick demo_lib demo_satrec ?m 10801000 demo_running"
  have a: "orbitLayer ?t \<noteq> []"
    by (simp add: tick_frame demo_running_timer)
  have b: "satMarker ?t = Some 0"
    using tick_creates_marker(1) [OF demo_propagate_later demo_running_markers(1), of ?m]
    by (simp add: demo_running_markers)
  have c: "mapMarkers ?t = [0]"
    using tick_creates_marker(2) [OF demo_propagate_later demo_running_markers(1), of ?m]
    by (simp add: demo_running_markers)
  have d: "panel_display (telemetryPanel ?t) = DisplayBlock"
    by (simp add: tick_shows [OF demo_propagate_later])
  show ?thesis
    using C9_stop_clears_display
      [of demo_lib "[Track (js ''25544'') None 10800000, Fire 1 10801000]"] a b c d
    unfolding demo_first_tick by blast
qed

section \<open>A record that cannot be built (C10)\<close>

text \<open>
  C10.  If \<^verbatim>\<open>twoline2satrec\<close> throws on the lines that the click resolved, the
  click changes nothing but the messages (the parse alert and the console error are
  added): the live timers, \<^verbatim>\<open>updateHandle\<close>, the plotted orbit, the marker and the
  telemetry panel are those of before, and every timer fires afterwards exactly as it
  would have fired before.
\<close>

theorem C10_failed_record_keeps_session:
  assumes "resolve_tle lib input res s = (tle, norad, s2)"
    and "twoline2satrec lib (line1 tle) (line2 tle) = None"
  shows "trackClick lib input res now s =
           s\<lparr>outputs := outputs s2 @
              [Alert ''Failed to parse TLE. Paste a valid 2-line element or try another ID.'',
               ConsoleError ''err'']\<rparr>
       \<and> timers (trackClick lib input res now s) = timers s
       \<and> updateHandle (trackClick lib input res now s) = updateHandle s
       \<and> orbitLayer (trackClick lib input res now s) = orbitLayer s
       \<and> satMarker (trackClick lib input res now s) = satMarker s
       \<and> mapMarkers (trackClick lib input res now s) = mapMarkers s
       \<and> markerObjs (trackClick lib input res now s) = markerObjs s
       \<and> telemetryPanel (trackClick lib input res now s) = telemetryPanel s
       \<and> fire lib h t (trackClick lib input res now s) =
           (fire lib h t s)\<lparr>outputs := outputs (trackClick lib input res now s)\<rparr>"
proof -
  obtain ms where "snd (snd (resolve_tle lib input res s)) = s\<lparr>outputs := outputs s @ ms\<rparr>"
    using resolve_tle_outputs by blast
  then have s2: "s2 = s\<lparr>outputs := outputs s @ ms\<rparr>" by (simp add: assms(1))
  have "trackClick lib input res now s = start_session lib tle norad now s2"
    using assms(1) by (rule trackClick_resolved)
  also have "\<dots> = s2\<lparr>outputs := outputs s2 @
              [Alert ''Failed to parse TLE. Paste a valid 2-line element or try another ID.'',
               ConsoleError ''err'']\<rparr>"
    using assms(2) by (rule start_session_failed)
  also have "\<dots> = s\<lparr>outputs := outputs s2 @
              [Alert ''Failed to parse TLE. Paste a valid 2-line element or try another ID.'',
               ConsoleError ''err'']\<rparr>"
    by (simp add: s2)
  finally have e: "trackClick lib input res now s =
           s\<lparr>outputs := outputs s2 @
              [Alert ''Failed to parse TLE. Paste a valid 2-line element or try another ID.'',
               ConsoleError ''err'']\<rparr>" .
  have f: "fire lib h t (trackClick lib input res now s) =
           (fire lib h t s)\<lparr>outputs := outputs (trackClick lib input res now s)\<rparr>"
    by (simp add: e fire_outputs_commute)
  show ?thesis using f by (simp add: e)
qed

text \<open>
  An instance: on the running page, a search by name finds a name line with no lines
  after it, so both orbital lines are \<^verbatim>\<open>undefined\<close> and the record cannot be built;
  the timer with handle 1 and the plotted path are still there.
\<close>

theorem C10_failed_record_keeps_session_witness:
  "resolve_tle demo_lib (js ''ISS'') (Some (Response True (Some (js ''ISS (ZARYA)'')))) demo_running =
     (\<lparr>tle_name = js ''ISS (ZARYA)'', line1 = None, line2 = None\<rparr>, None, demo_running)
   \<and> twoline2satrec demo_lib None None = None
   \<and> timers (trackClick demo_lib (js ''ISS'') (Some (Response True (Some (js ''ISS (ZARYA)''))))
        10802000 demo_running) 1 =
       Some \<lparr>cb_satrec = demo_satrec,
             cb_meta = \<lparr>meta_name = tle_name sampleISS, meta_id = js ''25544''\<rparr>,
             period_ms = 1000\<rparr>
   \<and> updateHandle (trackClick demo_lib (js ''ISS'')
        (Some (Response True (Some (js ''ISS (ZARYA)'')))) 10802000 demo_running) = Some 1
   \<and> orbitLayer (trackClick demo_lib (js ''ISS'')
        (Some (Response True (Some (js ''ISS (ZARYA)'')))) 10802000 demo_running) =
       [plotOrbit_path demo_lib demo_satrec (Some 360) (Some 60) 10800000]
   \<and> outputs (trackClick demo_lib (js ''ISS'')
        (Some (Response True (Some (js ''ISS (ZARYA)'')))) 10802000 demo_running) =
       [ConsoleWarn ''Celestrak fetch failed'',
        Alert ''Failed to parse TLE. Paste a valid 2-line element or try another ID.'',
        ConsoleError ''err'']"
proof -
  have u: "twoline2satrec demo_lib
             (line1 \<lparr>tle_name = js ''ISS (ZARYA)'', line1 = None, line2 = None\<rparr>)
             (line2 \<lparr>tle_name = js ''ISS (ZARYA)'', line1 = None, line2 = None\<rparr>) = None"
    by (simp add: demo_undefined_lines)
  note th = C10_failed_record_keeps_session [OF demo_resolve_name u, where now = 10802000
      and h = 1 and t = 0]
  from th have a: "timers (trackClick demo_lib (js ''ISS'')
        (Some (Response True (Some (js ''ISS (ZARYA)'')))) 10802000 demo_running) = timers demo_running"
    by blast
  from th have b: "updateHandle (trackClick demo_lib (js ''ISS'')
        (Some (Response True (Some (js ''ISS (ZARYA)'')))) 10802000 demo_running) =
        updateHandle demo_running"
    by blast
  from th have c: "orbitLayer (trackClick demo_lib (js ''ISS'')
        (Some (Response True (Some (js ''ISS (ZARYA)'')))) 10802000 demo_running) =
        orbitLayer demo_running"
    by blast
  from th have d: "trackClick demo_lib (js ''ISS'')
        (Some (Response True (Some (js ''ISS (ZARYA)'')))) 10802000 demo_running =
        demo_running\<lparr>outputs := outputs demo_running @
              [Alert ''Failed to parse TLE. Paste a valid 2-line element or try another ID.'',
               ConsoleError ''err'']\<rparr>"
    by blast
  have o: "outputs (trackClick demo_lib (js ''ISS'')
        (Some (Response True (Some (js ''ISS (ZARYA)'')))) 10802000 demo_running) =
       [ConsoleWarn ''Celestrak fetch failed'',
        Alert ''Failed to parse TLE. Paste a valid 2-line element or try another ID.'',
        ConsoleError ''err'']"
    by (simp add: d demo_running_timer(3))
  show ?thesis
    using demo_resolve_name [of demo_running] demo_undefined_lines o
    unfolding a b c demo_running_timer
    by blast
qed

end
